theory Spec2Isabelle
  imports Main "HOL-Library.Word"
begin

section \<open>Go values used by main.go\<close>

text \<open>
  The program is one Go file, \<^verbatim>\<open>main.go\<close>. It asks three functions of the library
  \<^verbatim>\<open>golang-matrixfederation\<close> to do the network and cryptographic work
  (\<^verbatim>\<open>LookupServer\<close>, \<^verbatim>\<open>FetchKeysDirect\<close>, \<^verbatim>\<open>CheckKeys\<close>) and assembles what they
  return into a \<^verbatim>\<open>ServerReport\<close>.

  Byte slices and strings are both sequences of bytes, written as \<open>string\<close>.
  A slice is a list; the nil slice and the empty slice are both \<open>[]\<close>.
  The type variable \<open>'x\<close> stands for the values of library types that main.go stores or
  hands on without looking inside them.
\<close>

type_synonym bytes = string
type_synonym Base64String = bytes
type_synonym Time = int

text \<open>
  A Go map is a reference that is either nil or was made. Reading and ranging over a nil
  map behave as for an empty one; the two are different values all the same.
\<close>

datatype ('k, 'v) go_map = NilMap | MadeMap "'k \<rightharpoonup> 'v"

fun entries :: "('k, 'v) go_map \<Rightarrow> ('k \<rightharpoonup> 'v)" where
  "entries NilMap = Map.empty"
| "entries (MadeMap m) = m"

definition map_keys :: "('k, 'v) go_map \<Rightarrow> 'k set" where
  "map_keys m = dom (entries m)"

text \<open>
  \<^verbatim>\<open>for k, v := range m { m[k] = f(v) }\<close>: the loop visits every key of the map once, in
  an order the runtime picks, and stores at that key a value computed from the value read
  there. No key is added or removed, and a nil map is left nil.
\<close>

fun range_assign :: "('v \<Rightarrow> 'u) \<Rightarrow> ('k, 'v) go_map \<Rightarrow> ('k, 'u) go_map" where
  "range_assign f NilMap = NilMap"
| "range_assign f (MadeMap m) = MadeMap (\<lambda>k. map_option f (m k))"

text \<open>
  The same loop, one iteration at a time, over the keys in the order the runtime visits
  them (\<open>range_loop_pointwise\<close> below shows that the order does not matter).
\<close>

fun range_loop :: "('v \<Rightarrow> 'v) \<Rightarrow> 'k list \<Rightarrow> ('k \<rightharpoonup> 'v) \<Rightarrow> ('k \<rightharpoonup> 'v)" where
  "range_loop f [] m = m"
| "range_loop f (k # ks) m =
     (case m k of
        None \<Rightarrow> range_loop f ks m
      | Some v \<Rightarrow> range_loop f ks (m(k \<mapsto> f v)))"

subsection \<open>Errors\<close>

text \<open>
  \<^verbatim>\<open>type ReportError struct { Message string }\<close> with
  \<^verbatim>\<open>func (e ReportError) Error() string { return e.Message }\<close>.
\<close>

record ReportError =
  Message :: string

definition ReportError_Error :: "ReportError \<Rightarrow> string" where
  "ReportError_Error e = Message e"

text \<open>
  A non-nil value of the interface \<^verbatim>\<open>error\<close> is either an error of some other package
  (its contents, and the text its \<^verbatim>\<open>Error()\<close> method returns) or a \<^verbatim>\<open>ReportError\<close>.
  The interface value itself may be nil: \<open>None\<close>.
\<close>

datatype 'x error_value = ForeignError 'x string | IsReportError ReportError

type_synonym 'x error = "'x error_value option"

fun error_Error :: "'x error_value \<Rightarrow> string" where
  "error_Error (ForeignError d s) = s"
| "error_Error (IsReportError e) = ReportError_Error e"

subsection \<open>Library data\<close>

text \<open>
  \<^verbatim>\<open>matrixfederation.DNSResult\<close> and \<^verbatim>\<open>matrixfederation.HostResult\<close> are declared in the
  library. main.go reads and writes \<^verbatim>\<open>SRVError\<close>, \<^verbatim>\<open>Hosts\<close> and \<^verbatim>\<open>Addrs\<close> of the first
  and \<^verbatim>\<open>Error\<close> of the second; \<open>DNSRest\<close> and \<open>HostRest\<close> hold all their other fields.
\<close>

record 'x HostResult =
  Error :: "'x error"
  HostRest :: 'x

record 'x DNSResult =
  SRVError :: "'x error"
  Hosts :: "(string, 'x HostResult) go_map"
  Addrs :: "string list"
  DNSRest :: 'x

text \<open>
  Of \<^verbatim>\<open>x509.Certificate\<close> main.go reads \<^verbatim>\<open>Raw\<close>, \<^verbatim>\<open>Subject.CommonName\<close>,
  \<^verbatim>\<open>Issuer.CommonName\<close> and \<^verbatim>\<open>DNSNames\<close>; of \<^verbatim>\<open>tls.ConnectionState\<close> it reads
  \<^verbatim>\<open>PeerCertificates\<close>, \<^verbatim>\<open>Version\<close> and \<^verbatim>\<open>CipherSuite\<close>; of
  \<^verbatim>\<open>matrixfederation.ServerKeys\<close> it reads \<^verbatim>\<open>Raw\<close>.
\<close>

record 'x Certificate =
  cert_Raw :: bytes
  Subject_CommonName :: string
  Issuer_CommonName :: string
  cert_DNSNames :: "string list"
  cert_rest :: 'x

record 'x ConnectionState =
  PeerCertificates :: "'x Certificate list"
  cs_Version :: "16 word"
  cs_CipherSuite :: "16 word"
  cs_rest :: 'x

record 'x ServerKeys =
  keys_Raw :: bytes
  keys_rest :: 'x

subsection \<open>The report\<close>

record X509CertSummary =
  SubjectCommonName :: string
  IssuerCommonName :: string
  SHA256Fingerprint :: Base64String
  DNSNames :: "string list"

record CipherSummary =
  Version :: string
  CipherSuite :: string

text \<open>
  \<^verbatim>\<open>Keys *json.RawMessage\<close> is a pointer to the bytes of the key document (\<open>None\<close> is the
  nil pointer); \<^verbatim>\<open>Checks matrixfederation.KeyChecks\<close> is a library struct.
\<close>

record 'x ConnectionReport =
  Certificates :: "X509CertSummary list"
  Cipher :: CipherSummary
  Keys :: "bytes option"
  Checks :: 'x
  Ed25519VerifyKeys :: "(string, Base64String) go_map"
  SHA256TLSFingerprints :: "Base64String list"

record 'x ServerReport =
  DNSResult :: "'x DNSResult"
  ConnectionReports :: "(string, 'x ConnectionReport) go_map"
  ConnectionErrors :: "(string, 'x error) go_map"

subsection \<open>The outside world\<close>

text \<open>
  Everything main.go calls outside itself. The network, the clock and whatever else a call
  may depend on or change is a state \<open>'w\<close> that each effectful call takes and returns, so
  two probes of one address need not give the same answer. A call that returns
  \<^verbatim>\<open>(value, err)\<close> gives \<open>Inl err\<close> when \<^verbatim>\<open>err != nil\<close> and \<open>Inr value\<close> otherwise.
  \<^verbatim>\<open>CheckKeys\<close>, \<^verbatim>\<open>sha256.Sum256\<close>, \<^verbatim>\<open>json.Marshal\<close>, \<^verbatim>\<open>json.Indent\<close> (the contents of
  the buffer it wrote to) and the verb \<^verbatim>\<open>%q\<close> of \<^verbatim>\<open>fmt\<close> compute from their arguments
  only.
\<close>

record ('w, 'x) env =
  LookupServer :: "string \<Rightarrow> 'w \<Rightarrow> ('x error_value + 'x DNSResult) \<times> 'w"
  FetchKeysDirect ::
    "string \<Rightarrow> string \<Rightarrow> string \<Rightarrow> 'w \<Rightarrow> ('x error_value + 'x ServerKeys \<times> 'x ConnectionState) \<times> 'w"
  CheckKeys ::
    "string \<Rightarrow> Time \<Rightarrow> 'x ServerKeys \<Rightarrow> 'x ConnectionState
       \<Rightarrow> 'x \<times> (string, Base64String) go_map \<times> Base64String list"
  time_Now :: "'w \<Rightarrow> Time \<times> 'w"
  sha256_Sum256 :: "bytes \<Rightarrow> bytes"
  json_Marshal :: "'x ServerReport \<Rightarrow> 'x error_value + bytes"
  json_Indent :: "bytes \<Rightarrow> bytes"
  fmt_q :: "string \<Rightarrow> string"

section \<open>enumToString and its tables\<close>

text \<open>
  \<^verbatim>\<open>fmt.Sprintf("%x", value)\<close> for an unsigned value: its digits in base 16, lower
  case, the most significant first, no leading zero (a single \<open>0\<close> for zero).
\<close>

definition hex_digit :: "nat \<Rightarrow> char" where
  "hex_digit d = ''0123456789abcdef'' ! d"

fun hex_of_nat :: "nat \<Rightarrow> string" where
  "hex_of_nat n =
     (if n < 16 then [hex_digit n] else hex_of_nat (n div 16) @ [hex_digit (n mod 16)])"

text \<open>Reading such digits back, for stating that the text determines the value.\<close>

definition hex_digit_value :: "char \<Rightarrow> nat" where
  "hex_digit_value c =
     (let n = (of_char c :: nat) in if 48 \<le> n \<and> n \<le> 57 then n - 48 else n - 87)"

definition hex_value :: "string \<Rightarrow> nat" where
  "hex_value s = foldl (\<lambda>acc c. 16 * acc + hex_digit_value c) 0 s"

definition enumToString :: "(16 word \<rightharpoonup> string) \<Rightarrow> 16 word \<Rightarrow> string" where
  "enumToString names v =
     (case names v of
        Some name \<Rightarrow> name
      | None \<Rightarrow> ''UNKNOWN[0x'' @ hex_of_nat (unat v) @ '']'')"

text \<open>The constants of \<^verbatim>\<open>crypto/tls\<close> that key the two tables, with Go's values.\<close>

definition VersionSSL30 :: "16 word" where "VersionSSL30 = 0x0300"
definition VersionTLS10 :: "16 word" where "VersionTLS10 = 0x0301"
definition VersionTLS11 :: "16 word" where "VersionTLS11 = 0x0302"
definition VersionTLS12 :: "16 word" where "VersionTLS12 = 0x0303"

definition TLS_RSA_WITH_RC4_128_SHA :: "16 word" where
  "TLS_RSA_WITH_RC4_128_SHA = 0x0005"
definition TLS_RSA_WITH_3DES_EDE_CBC_SHA :: "16 word" where
  "TLS_RSA_WITH_3DES_EDE_CBC_SHA = 0x000a"
definition TLS_RSA_WITH_AES_128_CBC_SHA :: "16 word" where
  "TLS_RSA_WITH_AES_128_CBC_SHA = 0x002f"
definition TLS_RSA_WITH_AES_256_CBC_SHA :: "16 word" where
  "TLS_RSA_WITH_AES_256_CBC_SHA = 0x0035"
definition TLS_ECDHE_ECDSA_WITH_RC4_128_SHA :: "16 word" where
  "TLS_ECDHE_ECDSA_WITH_RC4_128_SHA = 0xc007"
definition TLS_ECDHE_ECDSA_WITH_AES_128_CBC_SHA :: "16 word" where
  "TLS_ECDHE_ECDSA_WITH_AES_128_CBC_SHA = 0xc009"
definition TLS_ECDHE_ECDSA_WITH_AES_256_CBC_SHA :: "16 word" where
  "TLS_ECDHE_ECDSA_WITH_AES_256_CBC_SHA = 0xc00a"
definition TLS_ECDHE_RSA_WITH_RC4_128_SHA :: "16 word" where
  "TLS_ECDHE_RSA_WITH_RC4_128_SHA = 0xc011"
definition TLS_ECDHE_RSA_WITH_3DES_EDE_CBC_SHA :: "16 word" where
  "TLS_ECDHE_RSA_WITH_3DES_EDE_CBC_SHA = 0xc012"
definition TLS_ECDHE_RSA_WITH_AES_128_CBC_SHA :: "16 word" where
  "TLS_ECDHE_RSA_WITH_AES_128_CBC_SHA = 0xc013"
definition TLS_ECDHE_RSA_WITH_AES_256_CBC_SHA :: "16 word" where
  "TLS_ECDHE_RSA_WITH_AES_256_CBC_SHA = 0xc014"
definition TLS_ECDHE_RSA_WITH_AES_128_GCM_SHA256 :: "16 word" where
  "TLS_ECDHE_RSA_WITH_AES_128_GCM_SHA256 = 0xc02f"
definition TLS_ECDHE_ECDSA_WITH_AES_128_GCM_SHA256 :: "16 word" where
  "TLS_ECDHE_ECDSA_WITH_AES_128_GCM_SHA256 = 0xc02b"
definition TLS_ECDHE_ECDSA_WITH_AES_256_GCM_SHA384 :: "16 word" where
  "TLS_ECDHE_ECDSA_WITH_AES_256_GCM_SHA384 = 0xc02c"
definition TLS_ECDHE_RSA_WITH_AES_256_GCM_SHA384 :: "16 word" where
  "TLS_ECDHE_RSA_WITH_AES_256_GCM_SHA384 = 0xc030"

definition tlsVersions :: "16 word \<rightharpoonup> string" where
  "tlsVersions =
     [VersionSSL30 \<mapsto> ''SSL 3.0'',
      VersionTLS10 \<mapsto> ''TLS 1.0'',
      VersionTLS11 \<mapsto> ''TLS 1.1'',
      VersionTLS12 \<mapsto> ''TLS 1.2'']"

definition tlsCipherSuites :: "16 word \<rightharpoonup> string" where
  "tlsCipherSuites =
     [TLS_RSA_WITH_RC4_128_SHA \<mapsto> ''TLS_RSA_WITH_RC4_128_SHA'',
      TLS_RSA_WITH_3DES_EDE_CBC_SHA \<mapsto> ''TLS_RSA_WITH_3DES_EDE_CBC_SHA'',
      TLS_RSA_WITH_AES_128_CBC_SHA \<mapsto> ''TLS_RSA_WITH_AES_128_CBC_SHA'',
      TLS_RSA_WITH_AES_256_CBC_SHA \<mapsto> ''TLS_RSA_WITH_AES_256_CBC_SHA'',
      TLS_ECDHE_ECDSA_WITH_RC4_128_SHA \<mapsto> ''TLS_ECDHE_ECDSA_WITH_RC4_128_SHA'',
      TLS_ECDHE_ECDSA_WITH_AES_128_CBC_SHA \<mapsto> ''TLS_ECDHE_ECDSA_WITH_AES_128_CBC_SHA'',
      TLS_ECDHE_ECDSA_WITH_AES_256_CBC_SHA \<mapsto> ''TLS_ECDHE_ECDSA_WITH_AES_256_CBC_SHA'',
      TLS_ECDHE_RSA_WITH_RC4_128_SHA \<mapsto> ''TLS_ECDHE_RSA_WITH_RC4_128_SHA'',
      TLS_ECDHE_RSA_WITH_3DES_EDE_CBC_SHA \<mapsto> ''TLS_ECDHE_RSA_WITH_3DES_EDE_CBC_SHA'',
      TLS_ECDHE_RSA_WITH_AES_128_CBC_SHA \<mapsto> ''TLS_ECDHE_RSA_WITH_AES_128_CBC_SHA'',
      TLS_ECDHE_RSA_WITH_AES_256_CBC_SHA \<mapsto> ''TLS_ECDHE_RSA_WITH_AES_256_CBC_SHA'',
      TLS_ECDHE_RSA_WITH_AES_128_GCM_SHA256 \<mapsto> ''TLS_ECDHE_RSA_WITH_AES_128_GCM_SHA256'',
      TLS_ECDHE_ECDSA_WITH_AES_128_GCM_SHA256 \<mapsto> ''TLS_ECDHE_ECDSA_WITH_AES_128_GCM_SHA256'',
      TLS_ECDHE_ECDSA_WITH_AES_256_GCM_SHA384 \<mapsto> ''TLS_ECDHE_ECDSA_WITH_AES_256_GCM_SHA384'',
      TLS_ECDHE_RSA_WITH_AES_256_GCM_SHA384 \<mapsto> ''TLS_ECDHE_RSA_WITH_AES_256_GCM_SHA384'']"

section \<open>Report\<close>

text \<open>
  The inner loop of \<^verbatim>\<open>Report\<close>, over \<^verbatim>\<open>connState.PeerCertificates\<close>: each iteration
  appends one summary to \<^verbatim>\<open>connReport.Certificates\<close>.
\<close>

fun summarize_certificates ::
  "(bytes \<Rightarrow> bytes) \<Rightarrow> 'x Certificate list \<Rightarrow> X509CertSummary list \<Rightarrow> X509CertSummary list"
where
  "summarize_certificates sum256 [] acc = acc"
| "summarize_certificates sum256 (cert # certs) acc =
     (let fingerprint = sum256 (cert_Raw cert);
          summary = \<lparr>SubjectCommonName = Subject_CommonName cert,
                     IssuerCommonName = Issuer_CommonName cert,
                     SHA256Fingerprint = fingerprint,
                     DNSNames = cert_DNSNames cert\<rparr>
      in summarize_certificates sum256 certs (acc @ [summary]))"

text \<open>
  The body of the outer loop after a probe that succeeded: the \<^verbatim>\<open>connReport\<close> stored
  under the address.
\<close>

definition connReport ::
  "('w, 'x) env \<Rightarrow> string \<Rightarrow> Time \<Rightarrow> 'x ServerKeys \<Rightarrow> 'x ConnectionState \<Rightarrow> 'x ConnectionReport"
where
  "connReport env serverName now keys connState =
     (case CheckKeys env serverName now keys connState of
        (checks, verifyKeys, fingerprints) \<Rightarrow>
          \<lparr>Certificates =
             summarize_certificates (sha256_Sum256 env) (PeerCertificates connState) [],
           Cipher = \<lparr>Version = enumToString tlsVersions (cs_Version connState),
                     CipherSuite = enumToString tlsCipherSuites (cs_CipherSuite connState)\<rparr>,
           Keys = Some (keys_Raw keys),
           Checks = checks,
           Ed25519VerifyKeys = verifyKeys,
           SHA256TLSFingerprints = fingerprints\<rparr>)"

text \<open>
  The outer loop, over \<^verbatim>\<open>report.DNSResult.Addrs\<close>. Both maps of the report were made
  just before the loop, so every store goes to a made map; the loop's state is the
  contents of \<^verbatim>\<open>report.ConnectionReports\<close> and of \<^verbatim>\<open>report.ConnectionErrors\<close>, and the
  world.
\<close>

fun probe_loop ::
  "('w, 'x) env \<Rightarrow> string \<Rightarrow> string \<Rightarrow> Time \<Rightarrow> string list
     \<Rightarrow> (string \<rightharpoonup> 'x ConnectionReport) \<times> (string \<rightharpoonup> 'x error) \<Rightarrow> 'w
     \<Rightarrow> ((string \<rightharpoonup> 'x ConnectionReport) \<times> (string \<rightharpoonup> 'x error)) \<times> 'w"
where
  "probe_loop env serverName sni now [] (reports, errors) w = ((reports, errors), w)"
| "probe_loop env serverName sni now (addr # addrs) (reports, errors) w =
     (case FetchKeysDirect env serverName addr sni w of
        (Inl err, w') \<Rightarrow>
          probe_loop env serverName sni now addrs (reports, errors(addr \<mapsto> Some err)) w'
      | (Inr (keys, connState), w') \<Rightarrow>
          probe_loop env serverName sni now addrs
            (reports(addr \<mapsto> connReport env serverName now keys connState), errors) w')"

text \<open>
  \<^verbatim>\<open>Report\<close> returns \<^verbatim>\<open>(nil, err)\<close>, here \<open>Inl err\<close>, or \<^verbatim>\<open>(&report, nil)\<close>, here
  \<open>Inr report\<close>; beside it, the world after the call.
\<close>

definition Report ::
  "('w, 'x) env \<Rightarrow> string \<Rightarrow> string \<Rightarrow> 'w \<Rightarrow> ('x error_value + 'x ServerReport) \<times> 'w"
where
  "Report env serverName sni w =
     (case LookupServer env serverName w of
        (Inl err, w1) \<Rightarrow> (Inl err, w1)
      | (Inr dnsResult, w1) \<Rightarrow>
          (case time_Now env w1 of
             (now, w2) \<Rightarrow>
               (case probe_loop env serverName sni now (Addrs dnsResult)
                       (Map.empty, Map.empty) w2 of
                  ((reports, errors), w3) \<Rightarrow>
                    (Inr \<lparr>DNSResult = dnsResult,
                          ConnectionReports = MadeMap reports,
                          ConnectionErrors = MadeMap errors\<rparr>, w3))))"

section \<open>touchUpReport\<close>

definition asReportError :: "'x error \<Rightarrow> 'x error" where
  "asReportError err =
     (case err of
        Some e \<Rightarrow> Some (IsReportError \<lparr>Message = error_Error e\<rparr>)
      | None \<Rightarrow> None)"

definition touchUpReport :: "'x ServerReport \<Rightarrow> 'x ServerReport" where
  "touchUpReport report =
     (let dns1 = (DNSResult report)\<lparr>SRVError := asReportError (SRVError (DNSResult report))\<rparr>;
          dns2 = dns1\<lparr>Hosts :=
                   range_assign
                     (\<lambda>hostReport. hostReport\<lparr>Error := asReportError (Error hostReport)\<rparr>)
                     (Hosts dns1)\<rparr>
      in report\<lparr>DNSResult := dns2,
                ConnectionErrors := range_assign asReportError (ConnectionErrors report)\<rparr>)"

section \<open>JSONReport and HandleReport\<close>

definition JSONReport ::
  "('w, 'x) env \<Rightarrow> string \<Rightarrow> string \<Rightarrow> 'w \<Rightarrow> ('x error_value + bytes) \<times> 'w"
where
  "JSONReport env serverName sni w =
     (case Report env serverName sni w of
        (Inl err, w') \<Rightarrow> (Inl err, w')
      | (Inr results, w') \<Rightarrow>
          (case json_Marshal env (touchUpReport results) of
             Inl err \<Rightarrow> (Inl err, w')
           | Inr encoded \<Rightarrow> (Inr (json_Indent env encoded), w')))"

text \<open>
  Of the request the handler reads the method and the query of the URL
  (\<^verbatim>\<open>url.Values\<close>, a map from a name to its values; \<^verbatim>\<open>Get\<close> returns the first value, or
  the empty string when there is none).
\<close>

record Request =
  Method :: string
  Query :: "string \<rightharpoonup> string list"

definition Values_Get :: "(string \<rightharpoonup> string list) \<Rightarrow> string \<Rightarrow> string" where
  "Values_Get vs key = (case vs key of None \<Rightarrow> [] | Some [] \<Rightarrow> [] | Some (v # _) \<Rightarrow> v)"

text \<open>
  What the handler does to its \<^verbatim>\<open>http.ResponseWriter\<close>: the headers set, the status
  code written (\<open>None\<close> while \<^verbatim>\<open>WriteHeader\<close> has not been called) and the bytes written
  to the body. The first \<^verbatim>\<open>WriteHeader\<close> fixes the status; \<^verbatim>\<open>Write\<close> sends status 200
  first when none was written.
\<close>

record ResponseWriter =
  Header :: "string \<rightharpoonup> string list"
  StatusCode :: "nat option"
  Body :: bytes

definition Header_Set :: "ResponseWriter \<Rightarrow> string \<Rightarrow> string \<Rightarrow> ResponseWriter" where
  "Header_Set rw key v = rw\<lparr>Header := (Header rw)(key \<mapsto> [v])\<rparr>"

definition WriteHeader :: "ResponseWriter \<Rightarrow> nat \<Rightarrow> ResponseWriter" where
  "WriteHeader rw code =
     (case StatusCode rw of None \<Rightarrow> rw\<lparr>StatusCode := Some code\<rparr> | Some _ \<Rightarrow> rw)"

definition Write :: "ResponseWriter \<Rightarrow> bytes \<Rightarrow> ResponseWriter" where
  "Write rw b = (let rw' = WriteHeader rw 200 in rw'\<lparr>Body := Body rw' @ b\<rparr>)"

text \<open>
  \<^verbatim>\<open>HandleReport\<close>. \<^verbatim>\<open>fmt.Printf\<close> writes to the standard output of the process, which
  is the \<open>stdout\<close> threaded here beside the response writer and the world.
\<close>

definition HandleReport ::
  "('w, 'x) env \<Rightarrow> ResponseWriter \<Rightarrow> Request \<Rightarrow> string \<Rightarrow> 'w \<Rightarrow> ResponseWriter \<times> string \<times> 'w"
where
  "HandleReport env rw req stdout w =
     (let rw1 = Header_Set rw ''Access-Control-Allow-Origin'' ''*'';
          rw2 = Header_Set rw1 ''Access-Control-Allow-Methods''
                  ''GET, POST, PUT, DELETE, OPTIONS'';
          rw3 = Header_Set rw2 ''Access-Control-Allow-Headers''
                  ''Origin, X-Requested-With, Content-Type, Accept''
      in if Method req = ''OPTIONS'' then (rw3, stdout, w)
         else if Method req \<noteq> ''GET''
         then (WriteHeader rw3 405, stdout @ ''Unsupported method.'', w)
         else
           (let serverName = Values_Get (Query req) ''server_name'';
                tlsSNI = Values_Get (Query req) ''tls_sni''
            in case JSONReport env serverName tlsSNI w of
                 (Inl err, w') \<Rightarrow>
                   (WriteHeader rw3 500,
                    stdout @ ''Error Generating Report: '' @ fmt_q env (error_Error err), w')
               | (Inr result, w') \<Rightarrow>
                   (Write (WriteHeader (Header_Set rw3 ''Content-Type'' ''application/json'') 200)
                      result,
                    stdout, w')))"

section \<open>Notions used to state the properties\<close>

text \<open>
  The answers the probes of one run give, in the order of the addresses: the outcome of
  \<^verbatim>\<open>FetchKeysDirect\<close> at each address, each call made in the world the call before left.
\<close>

fun probe_results ::
  "('w, 'x) env \<Rightarrow> string \<Rightarrow> string \<Rightarrow> string list \<Rightarrow> 'w
     \<Rightarrow> ('x error_value + 'x ServerKeys \<times> 'x ConnectionState) list"
where
  "probe_results env serverName sni [] w = []"
| "probe_results env serverName sni (addr # addrs) w =
     (case FetchKeysDirect env serverName addr sni w of
        (res, w') \<Rightarrow> res # probe_results env serverName sni addrs w')"

text \<open>
  What the loop stores, as a function of the answers alone: \<open>mk\<close> builds the connection
  report from the keys and the session of a probe that succeeded.
\<close>

fun record_results ::
  "('k \<Rightarrow> 'c \<Rightarrow> 'r) \<Rightarrow> (string \<times> ('e + 'k \<times> 'c)) list
     \<Rightarrow> (string \<rightharpoonup> 'r) \<times> (string \<rightharpoonup> 'e option) \<Rightarrow> (string \<rightharpoonup> 'r) \<times> (string \<rightharpoonup> 'e option)"
where
  "record_results mk [] (reports, errors) = (reports, errors)"
| "record_results mk ((addr, Inl err) # rest) (reports, errors) =
     record_results mk rest (reports, errors(addr \<mapsto> Some err))"
| "record_results mk ((addr, Inr (keys, connState)) # rest) (reports, errors) =
     record_results mk rest (reports(addr \<mapsto> mk keys connState), errors)"

text \<open>
  The part of a report that does not come from \<^verbatim>\<open>CheckKeys\<close>, the one call that is
  given the time: everything but \<^verbatim>\<open>Checks\<close>, \<^verbatim>\<open>Ed25519VerifyKeys\<close> and
  \<^verbatim>\<open>SHA256TLSFingerprints\<close> of each connection report.
\<close>

definition time_free_conn ::
  "'x ConnectionReport \<Rightarrow> X509CertSummary list \<times> CipherSummary \<times> bytes option"
where
  "time_free_conn c = (Certificates c, Cipher c, Keys c)"

definition time_free ::
  "'x ServerReport
     \<Rightarrow> 'x DNSResult \<times> (string, X509CertSummary list \<times> CipherSummary \<times> bytes option) go_map
         \<times> (string, 'x error) go_map"
where
  "time_free r =
     (DNSResult r, range_assign time_free_conn (ConnectionReports r), ConnectionErrors r)"

subsection \<open>Example worlds\<close>

text \<open>
  A world that counts the calls made so far; its clock shows that count. Discovery knows
  one name, \<open>example.org\<close>, at two addresses; the first address answers every probe and
  the second never does.
\<close>

definition example_keys :: "nat ServerKeys" where
  "example_keys = \<lparr>keys_Raw = ''{}'', keys_rest = 0\<rparr>"

definition example_state :: "nat ConnectionState" where
  "example_state =
     \<lparr>PeerCertificates =
        [\<lparr>cert_Raw = ''der'', Subject_CommonName = ''example.org'',
          Issuer_CommonName = ''Example CA'', cert_DNSNames = [''example.org''],
          cert_rest = 0\<rparr>],
      cs_Version = 0x0303, cs_CipherSuite = 0x002f, cs_rest = 0\<rparr>"

definition example_dns :: "nat DNSResult" where
  "example_dns =
     \<lparr>SRVError = Some (ForeignError 0 ''no SRV record''),
      Hosts = MadeMap [''example.org'' \<mapsto> \<lparr>Error = None, HostRest = 0\<rparr>],
      Addrs = [''192.0.2.1:8448'', ''192.0.2.2:8448''],
      DNSRest = 0\<rparr>"

definition example_env :: "(nat, nat) env" where
  "example_env =
     \<lparr>LookupServer = (\<lambda>name w.
        if name = ''example.org'' then (Inr example_dns, Suc w)
        else (Inl (ForeignError 0 ''no such host''), Suc w)),
      FetchKeysDirect = (\<lambda>name addr sni w.
        if addr = ''192.0.2.1:8448'' then (Inr (example_keys, example_state), Suc w)
        else (Inl (ForeignError 0 ''i/o timeout''), Suc w)),
      CheckKeys = (\<lambda>name now keys connState. (nat now, NilMap, [])),
      time_Now = (\<lambda>w. (int w, Suc w)),
      sha256_Sum256 = (\<lambda>b. ''digest of '' @ b),
      json_Marshal = (\<lambda>r. Inr ''{}''),
      json_Indent = (\<lambda>b. b),
      fmt_q = (\<lambda>s. [CHR 0x22] @ s @ [CHR 0x22])\<rparr>"

text \<open>The same world with discovery returning the second address twice.\<close>

definition repeat_env :: "(nat, nat) env" where
  "repeat_env =
     example_env\<lparr>LookupServer := (\<lambda>name w.
       (Inr (example_dns\<lparr>Addrs := [''192.0.2.2:8448'', ''192.0.2.2:8448'']\<rparr>), Suc w))\<rparr>"

text \<open>
  The world of \<open>repeat_env\<close> with a server that is down for the first probe made (the
  second call of the run, after discovery and the clock) and up from then on.
\<close>

definition flaky_env :: "(nat, nat) env" where
  "flaky_env =
     repeat_env\<lparr>FetchKeysDirect := (\<lambda>name addr sni w.
       if w \<le> 2 then (Inl (ForeignError 0 ''connection refused''), Suc w)
       else (Inr (example_keys, example_state), Suc w))\<rparr>"

text \<open>A world in which discovery returns no address at all.\<close>

definition empty_env :: "(nat, nat) env" where
  "empty_env =
     example_env\<lparr>LookupServer := (\<lambda>name w. (Inr (example_dns\<lparr>Addrs := []\<rparr>), Suc w))\<rparr>"

text \<open>A world in which no address answers.\<close>

definition down_env :: "(nat, nat) env" where
  "down_env =
     example_env\<lparr>FetchKeysDirect := (\<lambda>name addr sni w.
       (Inl (ForeignError 0 ''connection refused''), Suc w))\<rparr>"

text \<open>The world of \<open>example_env\<close> with discovery returning the two addresses in the other order.\<close>

definition reversed_env :: "(nat, nat) env" where
  "reversed_env =
     example_env\<lparr>LookupServer := (\<lambda>name w.
       (Inr (example_dns\<lparr>Addrs := [''192.0.2.2:8448'', ''192.0.2.1:8448'']\<rparr>), Suc w))\<rparr>"

text \<open>A world in which every address answers.\<close>

definition up_env :: "(nat, nat) env" where
  "up_env =
     example_env\<lparr>FetchKeysDirect := (\<lambda>name addr sni w.
       (Inr (example_keys, example_state), Suc w))\<rparr>"

text \<open>The same world as \<open>up_env\<close> with a clock that runs one day ahead.\<close>

definition later_env :: "(nat, nat) env" where
  "later_env = up_env\<lparr>time_Now := (\<lambda>w. (int w + 86400, Suc w))\<rparr>"

text \<open>The same world again with a clock that stands still at 1.\<close>

definition stopped_env :: "(nat, nat) env" where
  "stopped_env = up_env\<lparr>time_Now := (\<lambda>w. (1, Suc w))\<rparr>"

text \<open>A request for a report on a name discovery does not know, and a fresh response.\<close>

definition unknown_request :: Request where
  "unknown_request =
     \<lparr>Method = ''GET'', Query = [''server_name'' \<mapsto> [''nowhere.invalid'']]\<rparr>"

definition fresh_response :: ResponseWriter where
  "fresh_response = \<lparr>Header = Map.empty, StatusCode = None, Body = []\<rparr>"

text \<open>A report with one failure of each kind, and one absent failure of each kind.\<close>

definition example_report :: "nat ServerReport" where
  "example_report =
     \<lparr>DNSResult =
        \<lparr>SRVError = Some (ForeignError 7 ''no SRV record''),
         Hosts = MadeMap [''a.example.org'' \<mapsto> \<lparr>Error = Some (ForeignError 8 ''no such host''),
                                                HostRest = 1\<rparr>,
                          ''b.example.org'' \<mapsto> \<lparr>Error = None, HostRest = 2\<rparr>],
         Addrs = [''192.0.2.1:8448'', ''192.0.2.2:8448''],
         DNSRest = 3\<rparr>,
      ConnectionReports =
        MadeMap [''192.0.2.1:8448'' \<mapsto> connReport example_env ''example.org'' 5
                                          example_keys example_state],
      ConnectionErrors =
        MadeMap [''192.0.2.2:8448'' \<mapsto> Some (ForeignError 9 ''i/o timeout''),
                 ''192.0.2.3:8448'' \<mapsto> Some (IsReportError \<lparr>Message = ''refused''\<rparr>),
                 ''192.0.2.4:8448'' \<mapsto> None]\<rparr>"

text \<open>A report whose failures are all message-only already.\<close>

definition message_report :: "nat ServerReport" where
  "message_report =
     \<lparr>DNSResult =
        \<lparr>SRVError = Some (IsReportError \<lparr>Message = ''no SRV record''\<rparr>),
         Hosts = MadeMap [''a.example.org'' \<mapsto>
                            \<lparr>Error = Some (IsReportError \<lparr>Message = ''no such host''\<rparr>),
                             HostRest = 1\<rparr>],
         Addrs = [''192.0.2.3:8448''],
         DNSRest = 3\<rparr>,
      ConnectionReports = MadeMap Map.empty,
      ConnectionErrors =
        MadeMap [''192.0.2.3:8448'' \<mapsto> Some (IsReportError \<lparr>Message = ''refused''\<rparr>)]\<rparr>"

section \<open>Facts about the hexadecimal rendering\<close>

declare hex_of_nat.simps [simp del]

lemma hex_digit_value_hex_digit: "d < 16 \<Longrightarrow> hex_digit_value (hex_digit d) = d"
proof -
  assume "d < 16"
  then have "d = 0 \<or> d = 1 \<or> d = 2 \<or> d = 3 \<or> d = 4 \<or> d = 5 \<or> d = 6 \<or> d = 7 \<or> d = 8
      \<or> d = 9 \<or> d = 10 \<or> d = 11 \<or> d = 12 \<or> d = 13 \<or> d = 14 \<or> d = 15"
    by arith
  then show ?thesis
    by (elim disjE) (simp_all add: hex_digit_def hex_digit_value_def)
qed

lemma hex_value_snoc: "hex_value (s @ [c]) = 16 * hex_value s + hex_digit_value c"
  by (simp add: hex_value_def)

lemma hex_value_hex_of_nat: "hex_value (hex_of_nat n) = n"
proof (induction n rule: hex_of_nat.induct)
  case (1 n)
  show ?case
  proof (cases "n < 16")
    case True
    then show ?thesis
      using hex_digit_value_hex_digit [of n]
      by (simp add: hex_of_nat.simps [of n] hex_value_def)
  next
    case False
    then show ?thesis
      using 1 hex_digit_value_hex_digit [of "n mod 16"]
      by (simp add: hex_of_nat.simps [of n] hex_value_snoc)
  qed
qed

lemma tlsVersions_names: "tlsVersions v = Some name \<Longrightarrow> name \<noteq> []"
  by (auto simp: tlsVersions_def split: if_splits)

lemma tlsCipherSuites_names: "tlsCipherSuites v = Some name \<Longrightarrow> name \<noteq> []"
  by (auto simp: tlsCipherSuites_def split: if_splits)

lemmas tls_constants =
  VersionSSL30_def VersionTLS10_def VersionTLS11_def VersionTLS12_def
  TLS_RSA_WITH_RC4_128_SHA_def TLS_RSA_WITH_3DES_EDE_CBC_SHA_def
  TLS_RSA_WITH_AES_128_CBC_SHA_def TLS_RSA_WITH_AES_256_CBC_SHA_def
  TLS_ECDHE_ECDSA_WITH_RC4_128_SHA_def TLS_ECDHE_ECDSA_WITH_AES_128_CBC_SHA_def
  TLS_ECDHE_ECDSA_WITH_AES_256_CBC_SHA_def TLS_ECDHE_RSA_WITH_RC4_128_SHA_def
  TLS_ECDHE_RSA_WITH_3DES_EDE_CBC_SHA_def TLS_ECDHE_RSA_WITH_AES_128_CBC_SHA_def
  TLS_ECDHE_RSA_WITH_AES_256_CBC_SHA_def TLS_ECDHE_RSA_WITH_AES_128_GCM_SHA256_def
  TLS_ECDHE_ECDSA_WITH_AES_128_GCM_SHA256_def TLS_ECDHE_ECDSA_WITH_AES_256_GCM_SHA384_def
  TLS_ECDHE_RSA_WITH_AES_256_GCM_SHA384_def

section \<open>Facts about the probe loop\<close>

lemma length_probe_results: "length (probe_results env sn sni addrs w) = length addrs"
  by (induction addrs arbitrary: w) (auto split: prod.splits)

lemma probe_loop_record:
  "fst (probe_loop env sn sni now addrs st w) =
     record_results (connReport env sn now) (zip addrs (probe_results env sn sni addrs w)) st"
proof (induction addrs arbitrary: st w)
  case Nil
  then show ?case by (cases st) simp
next
  case (Cons a addrs)
  obtain rs es where st: "st = (rs, es)" by (cases st)
  obtain res w' where f: "FetchKeysDirect env sn a sni w = (res, w')"
    by (cases "FetchKeysDirect env sn a sni w")
  show ?case
  proof (cases res)
    case (Inl err)
    then show ?thesis using Cons.IH f st by simp
  next
    case (Inr kc)
    then show ?thesis using Cons.IH f st by (cases kc) simp
  qed
qed

lemma record_results_reports_dom:
  "dom (fst (record_results mk ps (rs, es))) =
     dom rs \<union> set (map fst (filter (\<lambda>p. \<not> isl (snd p)) ps))"
proof (induction ps arbitrary: rs es)
  case Nil
  then show ?case by simp
next
  case (Cons p ps)
  obtain a res where p: "p = (a, res)" by (cases p)
  show ?case
  proof (cases res)
    case (Inl err)
    then show ?thesis using Cons.IH p by (auto split: if_splits)
  next
    case (Inr kc)
    then show ?thesis using Cons.IH p by (cases kc) (auto split: if_splits)
  qed
qed

lemma record_results_errors_dom:
  "dom (snd (record_results mk ps (rs, es))) =
     dom es \<union> set (map fst (filter (\<lambda>p. isl (snd p)) ps))"
proof (induction ps arbitrary: rs es)
  case Nil
  then show ?case by simp
next
  case (Cons p ps)
  obtain a res where p: "p = (a, res)" by (cases p)
  show ?case
  proof (cases res)
    case (Inl err)
    then show ?thesis using Cons.IH p by (auto split: if_splits)
  next
    case (Inr kc)
    then show ?thesis using Cons.IH p by (cases kc) (auto split: if_splits)
  qed
qed

lemma record_results_dom_union:
  "dom (fst (record_results mk ps (rs, es))) \<union> dom (snd (record_results mk ps (rs, es)))
     = dom rs \<union> dom es \<union> set (map fst ps)"
  unfolding record_results_reports_dom record_results_errors_dom by auto

lemma split_addresses_disjoint:
  assumes "distinct (map fst ps)"
  shows "set (map fst (filter (\<lambda>p. \<not> isl (snd p)) ps))
           \<inter> set (map fst (filter (\<lambda>p. isl (snd p)) ps)) = {}"
proof -
  have "inj_on fst (set ps)" using assms by (simp add: distinct_map)
  then show ?thesis by (auto dest: inj_onD)
qed

lemma split_addresses_card:
  assumes "distinct (map fst ps)"
  shows "card (set (map fst (filter (\<lambda>p. \<not> isl (snd p)) ps)))
           + card (set (map fst (filter (\<lambda>p. isl (snd p)) ps))) = length ps"
proof -
  have d1: "distinct (map fst (filter (\<lambda>p. \<not> isl (snd p)) ps))"
    using assms by (rule distinct_map_filter)
  have d2: "distinct (map fst (filter (\<lambda>p. isl (snd p)) ps))"
    using assms by (rule distinct_map_filter)
  have "length (filter (\<lambda>p. \<not> isl (snd p)) ps) + length (filter (\<lambda>p. isl (snd p)) ps) = length ps"
    using sum_length_filter_compl [of "\<lambda>p. isl (snd p)" ps] by simp
  then show ?thesis
    using distinct_card [OF d1] distinct_card [OF d2] by simp
qed

lemma zip_probe_results_fst:
  "map fst (zip addrs (probe_results env sn sni addrs w)) = addrs"
  by (simp add: length_probe_results)

lemma record_results_untouched:
  "a \<notin> set (map fst ps) \<Longrightarrow>
     fst (record_results mk ps (rs, es)) a = rs a \<and> snd (record_results mk ps (rs, es)) a = es a"
proof (induction ps arbitrary: rs es)
  case Nil
  then show ?case by simp
next
  case (Cons p ps)
  obtain b res where p: "p = (b, res)" by (cases p)
  with Cons.prems have ne: "a \<noteq> b" and notin: "a \<notin> set (map fst ps)" by auto
  show ?case
  proof (cases res)
    case (Inl err)
    then show ?thesis using Cons.IH [OF notin] p ne by simp
  next
    case (Inr kc)
    then show ?thesis using Cons.IH [OF notin] p ne by (cases kc) simp
  qed
qed


lemma record_results_report_value_distinct:
  "distinct (map fst ps) \<Longrightarrow> (a, Inr (k, c)) \<in> set ps \<Longrightarrow>
     fst (record_results mk ps (rs, es)) a = Some (mk k c)"
proof (induction ps arbitrary: rs es)
  case Nil
  then show ?case by simp
next
  case (Cons p ps)
  obtain b res where p: "p = (b, res)" by (cases p)
  from Cons.prems p have d: "distinct (map fst ps)" and nb: "b \<notin> set (map fst ps)" by auto
  show ?case
  proof (cases "(a, Inr (k, c)) \<in> set ps")
    case True
    show ?thesis
    proof (cases res)
      case (Inl err)
      then show ?thesis using Cons.IH [OF d True] p by simp
    next
      case (Inr kc)
      then show ?thesis using Cons.IH [OF d True] p by (cases kc) simp
    qed
  next
    case False
    with Cons.prems p have eq: "b = a" "res = Inr (k, c)" by auto
    then show ?thesis using record_results_untouched [of a ps mk "rs(a \<mapsto> mk k c)" es] nb p
      by simp
  qed
qed

lemma record_results_report_origin:
  "fst (record_results mk ps (rs, es)) a = Some cr \<Longrightarrow>
     rs a = Some cr \<or> (\<exists>k c. (a, Inr (k, c)) \<in> set ps \<and> cr = mk k c)"
proof (induction ps arbitrary: rs es)
  case Nil
  then show ?case by simp
next
  case (Cons p ps)
  obtain b res where p: "p = (b, res)" by (cases p)
  show ?case
  proof (cases res)
    case (Inl err)
    with Cons.prems p
    have "fst (record_results mk ps (rs, es(b \<mapsto> Some err))) a = Some cr" by simp
    from Cons.IH [OF this] show ?thesis by auto
  next
    case (Inr kc)
    obtain k' c' where kc: "kc = (k', c')" by (cases kc)
    with Cons.prems p Inr
    have "fst (record_results mk ps (rs(b \<mapsto> mk k' c'), es)) a = Some cr" by simp
    from Cons.IH [OF this]
    have "(rs(b \<mapsto> mk k' c')) a = Some cr \<or> (\<exists>k c. (a, Inr (k, c)) \<in> set ps \<and> cr = mk k c)" .
    then show ?thesis using p Inr kc by (auto split: if_splits)
  qed
qed


lemma record_results_view:
  assumes v: "\<And>k c. v (mk' k c) = v (mk k c)"
  shows "\<forall>a. map_option v (rs' a) = map_option v (rs a) \<Longrightarrow>
     (\<forall>a. map_option v (fst (record_results mk' ps (rs', es)) a)
            = map_option v (fst (record_results mk ps (rs, es)) a))
     \<and> snd (record_results mk' ps (rs', es)) = snd (record_results mk ps (rs, es))"
proof (induction ps arbitrary: rs rs' es)
  case Nil
  then show ?case by simp
next
  case (Cons p ps)
  obtain b res where p: "p = (b, res)" by (cases p)
  show ?case
  proof (cases res)
    case (Inl err)
    from Cons.IH [OF Cons.prems, of "es(b \<mapsto> Some err)"] show ?thesis
      unfolding p Inl record_results.simps .
  next
    case (Inr kc)
    obtain k c where kc: "kc = (k, c)" by (cases kc)
    have "\<forall>a. map_option v ((rs'(b \<mapsto> mk' k c)) a) = map_option v ((rs(b \<mapsto> mk k c)) a)"
      using Cons.prems v by simp
    from Cons.IH [OF this, of es] show ?thesis
      unfolding p Inr kc record_results.simps .
  qed
qed

lemma Report_success:
  assumes "LookupServer env sn w = (Inr dns, w1)" and "time_Now env w1 = (now, w2)"
  shows "Report env sn sni w =
     (Inr \<lparr>DNSResult = dns,
           ConnectionReports = MadeMap (fst (record_results (connReport env sn now)
             (zip (Addrs dns) (probe_results env sn sni (Addrs dns) w2)) (Map.empty, Map.empty))),
           ConnectionErrors = MadeMap (snd (record_results (connReport env sn now)
             (zip (Addrs dns) (probe_results env sn sni (Addrs dns) w2)) (Map.empty, Map.empty)))\<rparr>,
      snd (probe_loop env sn sni now (Addrs dns) (Map.empty, Map.empty) w2))"
proof -
  obtain rs es w3
    where pl: "probe_loop env sn sni now (Addrs dns) (Map.empty, Map.empty) w2 = ((rs, es), w3)"
    by (cases "probe_loop env sn sni now (Addrs dns) (Map.empty, Map.empty) w2") auto
  have "(rs, es) = record_results (connReport env sn now)
             (zip (Addrs dns) (probe_results env sn sni (Addrs dns) w2)) (Map.empty, Map.empty)"
    using probe_loop_record [of env sn sni now "Addrs dns" "(Map.empty, Map.empty)" w2] pl by simp
  then have "fst (record_results (connReport env sn now)
             (zip (Addrs dns) (probe_results env sn sni (Addrs dns) w2)) (Map.empty, Map.empty)) = rs"
    and "snd (record_results (connReport env sn now)
             (zip (Addrs dns) (probe_results env sn sni (Addrs dns) w2)) (Map.empty, Map.empty)) = es"
    by (metis fst_conv, metis snd_conv)
  then show ?thesis
    using assms pl by (simp add: Report_def)
qed

section \<open>Facts about maps and touchUpReport\<close>

lemma map_keys_MadeMap: "map_keys (MadeMap m) = dom m"
  by (simp add: map_keys_def)

lemma range_loop_visited:
  "distinct ks \<Longrightarrow>
     range_loop f ks m = (\<lambda>k. if k \<in> set ks then map_option f (m k) else m k)"
proof (induction ks arbitrary: m)
  case Nil
  then show ?case by simp
next
  case (Cons a ks)
  then have d: "distinct ks" and na: "a \<notin> set ks" by simp_all
  show ?case
  proof (cases "m a")
    case None
    have "range_loop f (a # ks) m = range_loop f ks m"
      using None by simp
    also have "\<dots> = (\<lambda>k. if k \<in> set ks then map_option f (m k) else m k)"
      by (rule Cons.IH [OF d])
    also have "\<dots> = (\<lambda>k. if k \<in> set (a # ks) then map_option f (m k) else m k)"
      using None by (auto simp: fun_eq_iff)
    finally show ?thesis .
  next
    case (Some v)
    have "range_loop f (a # ks) m = range_loop f ks (m(a \<mapsto> f v))"
      using Some by simp
    also have "\<dots> = (\<lambda>k. if k \<in> set ks then map_option f ((m(a \<mapsto> f v)) k)
                          else (m(a \<mapsto> f v)) k)"
      by (rule Cons.IH [OF d])
    also have "\<dots> = (\<lambda>k. if k \<in> set (a # ks) then map_option f (m k) else m k)"
      using Some na by (auto simp: fun_eq_iff)
    finally show ?thesis .
  qed
qed

lemma range_loop_pointwise:
  assumes "distinct ks" and "set ks = dom m"
  shows "MadeMap (range_loop f ks m) = range_assign f (MadeMap m)"
proof -
  have "range_loop f ks m = (\<lambda>k. map_option f (m k))"
    unfolding range_loop_visited [OF assms(1)] using assms(2) by (auto simp: fun_eq_iff)
  then show ?thesis by simp
qed

lemma asReportError_idem: "asReportError (asReportError err) = asReportError err"
  by (cases err) (simp_all add: asReportError_def ReportError_Error_def)

lemma range_assign_twice: "range_assign f (range_assign g m) = range_assign (\<lambda>v. f (g v)) m"
  by (cases m) (simp_all add: option.map_comp comp_def)

lemma entries_range_assign: "entries (range_assign f m) k = map_option f (entries m k)"
  by (cases m) simp_all

lemma range_assign_NilMap: "range_assign f m = NilMap \<longleftrightarrow> m = NilMap"
  by (cases m) simp_all

lemma map_keys_range_assign: "map_keys (range_assign f m) = map_keys m"
  by (cases m) (auto simp: map_keys_def)

lemma touchUpReport_fields:
  "SRVError (DNSResult (touchUpReport report)) = asReportError (SRVError (DNSResult report))"
  "Hosts (DNSResult (touchUpReport report)) =
     range_assign (\<lambda>hostReport. hostReport\<lparr>Error := asReportError (Error hostReport)\<rparr>)
       (Hosts (DNSResult report))"
  "Addrs (DNSResult (touchUpReport report)) = Addrs (DNSResult report)"
  "DNSRest (DNSResult (touchUpReport report)) = DNSRest (DNSResult report)"
  "ConnectionReports (touchUpReport report) = ConnectionReports report"
  "ConnectionErrors (touchUpReport report) = range_assign asReportError (ConnectionErrors report)"
  by (simp_all add: touchUpReport_def Let_def)

lemma touchUpReport_twice: "touchUpReport (touchUpReport report) = touchUpReport report"
proof -
  have "DNSResult (touchUpReport (touchUpReport report)) = DNSResult (touchUpReport report)"
    by (rule DNSResult.equality)
       (simp_all add: touchUpReport_fields asReportError_idem range_assign_twice)
  then show ?thesis
    by (intro ServerReport.equality)
       (simp_all add: touchUpReport_fields asReportError_idem range_assign_twice)
qed

section \<open>Facts about connection reports and the handler\<close>

lemma connReport_Keys:
  "Keys (connReport env serverName now keys connState) = Some (keys_Raw keys)"
  by (simp add: connReport_def split: prod.splits)

lemma time_free_conn_connReport:
  "sha256_Sum256 env' = sha256_Sum256 env \<Longrightarrow>
     time_free_conn (connReport env' serverName now' keys connState)
       = time_free_conn (connReport env serverName now keys connState)"
  by (simp add: time_free_conn_def connReport_def split: prod.splits)

lemma connReport_checks:
  "(Checks (connReport env serverName now keys connState),
    Ed25519VerifyKeys (connReport env serverName now keys connState),
    SHA256TLSFingerprints (connReport env serverName now keys connState))
     = CheckKeys env serverName now keys connState"
  by (simp add: connReport_def split: prod.splits)

lemma connReport_cong:
  "sha256_Sum256 env' = sha256_Sum256 env \<Longrightarrow>
   CheckKeys env' serverName now' = CheckKeys env serverName now \<Longrightarrow>
     connReport env' serverName now' = connReport env serverName now"
proof -
  assume digest: "sha256_Sum256 env' = sha256_Sum256 env"
    and checks: "CheckKeys env' serverName now' = CheckKeys env serverName now"
  have "connReport env' serverName now' keys connState
      = connReport env serverName now keys connState" for keys connState
    unfolding connReport_def digest checks ..
  then show ?thesis by (simp add: fun_eq_iff)
qed

lemma connReport_other_clock:
  "connReport (env\<lparr>time_Now := clock\<rparr>) serverName now keys connState
     = connReport env serverName now keys connState"
  by (simp add: connReport_def)

lemma probe_loop_other_clock:
  "probe_loop (env\<lparr>time_Now := clock\<rparr>) serverName sni now addrs st w
     = probe_loop env serverName sni now addrs st w"
proof (induction addrs arbitrary: st w)
  case Nil
  then show ?case by (cases st) simp
next
  case (Cons a addrs)
  obtain rs es where st: "st = (rs, es)" by (cases st)
  show ?case
    unfolding st by (simp add: Cons.IH connReport_other_clock split: prod.splits sum.splits)
qed

lemma Report_other_clock:
  assumes "clock w1 = time_Now env w1" and "LookupServer env serverName w = (r, w1)"
  shows "Report (env\<lparr>time_Now := clock\<rparr>) serverName sni w = Report env serverName sni w"
  using assms by (cases r) (simp_all add: Report_def probe_loop_other_clock)

lemma HandleReport_error_leaves_body:
  assumes "Method req = ''GET''"
    and "JSONReport env (Values_Get (Query req) ''server_name'')
           (Values_Get (Query req) ''tls_sni'') w = (Inl err, w')"
  shows "Body (fst (HandleReport env rw req out w)) = Body rw \<and>
     fst (snd (HandleReport env rw req out w))
       = out @ ''Error Generating Report: '' @ fmt_q env (error_Error err) \<and>
     (StatusCode rw = None \<longrightarrow> StatusCode (fst (HandleReport env rw req out w)) = Some 500)"
  using assms
  by (simp add: HandleReport_def Let_def Header_Set_def WriteHeader_def split: option.splits)

section \<open>The example worlds, run\<close>

lemma example_run:
  "Report example_env ''example.org'' sni 0 =
     (Inr \<lparr>DNSResult = example_dns,
           ConnectionReports =
             MadeMap [''192.0.2.1:8448'' \<mapsto>
                        connReport example_env ''example.org'' 1 example_keys example_state],
           ConnectionErrors =
             MadeMap [''192.0.2.2:8448'' \<mapsto> Some (ForeignError 0 ''i/o timeout'')]\<rparr>,
      4)"
  by (simp add: Report_def example_env_def example_dns_def)

lemma repeat_run:
  "Report repeat_env ''example.org'' sni 0 =
     (Inr \<lparr>DNSResult = example_dns\<lparr>Addrs := [''192.0.2.2:8448'', ''192.0.2.2:8448'']\<rparr>,
           ConnectionReports = MadeMap Map.empty,
           ConnectionErrors =
             MadeMap [''192.0.2.2:8448'' \<mapsto> Some (ForeignError 0 ''i/o timeout'')]\<rparr>,
      4)"
  by (simp add: Report_def repeat_env_def example_env_def example_dns_def)

lemma flaky_run:
  "Report flaky_env ''example.org'' sni 0 =
     (Inr \<lparr>DNSResult = example_dns\<lparr>Addrs := [''192.0.2.2:8448'', ''192.0.2.2:8448'']\<rparr>,
           ConnectionReports =
             MadeMap [''192.0.2.2:8448'' \<mapsto>
                        connReport flaky_env ''example.org'' 1 example_keys example_state],
           ConnectionErrors =
             MadeMap [''192.0.2.2:8448'' \<mapsto> Some (ForeignError 0 ''connection refused'')]\<rparr>,
      4)"
  by (simp add: Report_def flaky_env_def repeat_env_def example_env_def example_dns_def)

lemma empty_run:
  "Report empty_env ''example.org'' sni 0 =
     (Inr \<lparr>DNSResult = example_dns\<lparr>Addrs := []\<rparr>,
           ConnectionReports = MadeMap Map.empty,
           ConnectionErrors = MadeMap Map.empty\<rparr>,
      2)"
  by (simp add: Report_def empty_env_def example_env_def example_dns_def)

lemma down_run:
  "Report down_env ''example.org'' sni 0 =
     (Inr \<lparr>DNSResult = example_dns,
           ConnectionReports = MadeMap Map.empty,
           ConnectionErrors =
             MadeMap [''192.0.2.1:8448'' \<mapsto> Some (ForeignError 0 ''connection refused''),
                      ''192.0.2.2:8448'' \<mapsto> Some (ForeignError 0 ''connection refused'')]\<rparr>,
      4)"
  by (simp add: Report_def down_env_def example_env_def example_dns_def)

lemma touchUpReport_example:
  "touchUpReport example_report =
     example_report\<lparr>DNSResult :=
        \<lparr>SRVError = Some (IsReportError \<lparr>Message = ''no SRV record''\<rparr>),
         Hosts = MadeMap [''a.example.org'' \<mapsto> \<lparr>Error = Some (IsReportError \<lparr>Message = ''no such host''\<rparr>),
                                                HostRest = 1\<rparr>,
                          ''b.example.org'' \<mapsto> \<lparr>Error = None, HostRest = 2\<rparr>],
         Addrs = [''192.0.2.1:8448'', ''192.0.2.2:8448''],
         DNSRest = 3\<rparr>,
      ConnectionErrors :=
        MadeMap [''192.0.2.2:8448'' \<mapsto> Some (IsReportError \<lparr>Message = ''i/o timeout''\<rparr>),
                 ''192.0.2.3:8448'' \<mapsto> Some (IsReportError \<lparr>Message = ''refused''\<rparr>),
                 ''192.0.2.4:8448'' \<mapsto> None]\<rparr>"
  by (simp add: touchUpReport_def example_report_def asReportError_def ReportError_Error_def
        fun_eq_iff)

lemma example_report_entries:
  "entries (Hosts (DNSResult example_report)) ''b.example.org'' = Some \<lparr>Error = None, HostRest = 2\<rparr>"
  "entries (Hosts (DNSResult example_report)) ''a.example.org''
     = Some \<lparr>Error = Some (ForeignError 8 ''no such host''), HostRest = 1\<rparr>"
  "entries (Hosts (DNSResult example_report)) ''c.example.org'' = None"
  "entries (ConnectionErrors example_report) ''192.0.2.4:8448'' = Some None"
  "entries (ConnectionErrors example_report) ''192.0.2.9:8448'' = None"
  by (simp_all add: example_report_def)

lemma reversed_run:
  "Report reversed_env ''example.org'' sni 0 =
     (Inr \<lparr>DNSResult = example_dns\<lparr>Addrs := [''192.0.2.2:8448'', ''192.0.2.1:8448'']\<rparr>,
           ConnectionReports =
             MadeMap [''192.0.2.1:8448'' \<mapsto>
                        connReport reversed_env ''example.org'' 1 example_keys example_state],
           ConnectionErrors =
             MadeMap [''192.0.2.2:8448'' \<mapsto> Some (ForeignError 0 ''i/o timeout'')]\<rparr>,
      4)"
  by (simp add: Report_def reversed_env_def example_env_def example_dns_def)

lemma up_run:
  "Report up_env ''example.org'' sni 0 =
     (Inr \<lparr>DNSResult = example_dns,
           ConnectionReports =
             MadeMap [''192.0.2.1:8448'' \<mapsto>
                        connReport up_env ''example.org'' 1 example_keys example_state,
                      ''192.0.2.2:8448'' \<mapsto>
                        connReport up_env ''example.org'' 1 example_keys example_state],
           ConnectionErrors = MadeMap Map.empty\<rparr>,
      4)"
  by (simp add: Report_def up_env_def example_env_def example_dns_def)

lemma later_run:
  "Report later_env ''example.org'' sni 0 =
     (Inr \<lparr>DNSResult = example_dns,
           ConnectionReports =
             MadeMap [''192.0.2.1:8448'' \<mapsto>
                        connReport later_env ''example.org'' 86401 example_keys example_state,
                      ''192.0.2.2:8448'' \<mapsto>
                        connReport later_env ''example.org'' 86401 example_keys example_state],
           ConnectionErrors = MadeMap Map.empty\<rparr>,
      4)"
  by (simp add: Report_def later_env_def up_env_def example_env_def example_dns_def)

lemma stopped_run:
  "Report stopped_env ''example.org'' sni 0 =
     (Inr \<lparr>DNSResult = example_dns,
           ConnectionReports =
             MadeMap [''192.0.2.1:8448'' \<mapsto>
                        connReport stopped_env ''example.org'' 1 example_keys example_state,
                      ''192.0.2.2:8448'' \<mapsto>
                        connReport stopped_env ''example.org'' 1 example_keys example_state],
           ConnectionErrors = MadeMap Map.empty\<rparr>,
      4)"
  by (simp add: Report_def stopped_env_def up_env_def example_env_def example_dns_def)

section \<open>The claims\<close>

subsection \<open>enumToString\<close>

text \<open>
  Claim C5. \<^verbatim>\<open>enumToString\<close> gives a text for every 16-bit code: the table's name for
  a code the table holds, and otherwise \<^verbatim>\<open>UNKNOWN[0x\<close>, the code's hexadecimal digits
  and \<^verbatim>\<open>]\<close>, digits from which the code can be read back. With the two tables of main.go
  the text is never empty, and these two texts are the \<^verbatim>\<open>Version\<close> and \<^verbatim>\<open>CipherSuite\<close> of
  the cipher summary of every connection report.
\<close>

theorem enumToString_total:
  "(names v = Some name \<longrightarrow> enumToString names v = name) \<and>
   (names v = None \<longrightarrow>
      enumToString names v = ''UNKNOWN[0x'' @ hex_of_nat (unat v) @ '']'' \<and>
      hex_value (hex_of_nat (unat v)) = unat v) \<and>
   enumToString tlsVersions v \<noteq> [] \<and>
   enumToString tlsCipherSuites v \<noteq> [] \<and>
   Cipher (connReport env serverName now keys connState) =
     \<lparr>Version = enumToString tlsVersions (cs_Version connState),
      CipherSuite = enumToString tlsCipherSuites (cs_CipherSuite connState)\<rparr>"
proof -
  have known: "names v = Some name \<longrightarrow> enumToString names v = name"
    by (simp add: enumToString_def)
  have unknown: "names v = None \<longrightarrow>
      enumToString names v = ''UNKNOWN[0x'' @ hex_of_nat (unat v) @ '']'' \<and>
      hex_value (hex_of_nat (unat v)) = unat v"
    by (simp add: enumToString_def hex_value_hex_of_nat)
  have versions: "enumToString tlsVersions v \<noteq> []"
    by (cases "tlsVersions v") (simp_all add: enumToString_def tlsVersions_names)
  have suites: "enumToString tlsCipherSuites v \<noteq> []"
    by (cases "tlsCipherSuites v") (simp_all add: enumToString_def tlsCipherSuites_names)
  have cipher: "Cipher (connReport env serverName now keys connState) =
     \<lparr>Version = enumToString tlsVersions (cs_Version connState),
      CipherSuite = enumToString tlsCipherSuites (cs_CipherSuite connState)\<rparr>"
    by (simp add: connReport_def split: prod.splits)
  from known unknown versions suites cipher show ?thesis by blast
qed

theorem enumToString_total_witness:
  "tlsVersions 0x0304 = None \<and>
   enumToString tlsVersions 0x0304 = ''UNKNOWN[0x304]'' \<and>
   tlsCipherSuites 0x002f = Some ''TLS_RSA_WITH_AES_128_CBC_SHA'' \<and>
   enumToString tlsCipherSuites 0x002f = ''TLS_RSA_WITH_AES_128_CBC_SHA'' \<and>
   Cipher (connReport example_env ''example.org'' 0 example_keys example_state) =
     \<lparr>Version = ''TLS 1.2'', CipherSuite = ''TLS_RSA_WITH_AES_128_CBC_SHA''\<rparr>"
proof -
  have absent: "tlsVersions 0x0304 = None"
    by (simp add: tlsVersions_def tls_constants)
  have present: "tlsCipherSuites 0x002f = Some ''TLS_RSA_WITH_AES_128_CBC_SHA''"
    by (simp add: tlsCipherSuites_def tls_constants)
  have tls12: "tlsVersions 0x0303 = Some ''TLS 1.2''"
    by (simp add: tlsVersions_def tls_constants)
  have digits: "hex_of_nat (unat (0x0304 :: 16 word)) = ''304''"
    by (simp add: hex_of_nat.simps hex_digit_def)
  note ex = enumToString_total [where env = example_env and serverName = "''example.org''"
      and now = 0 and keys = example_keys and connState = example_state]
  from ex [of tlsVersions "0x0304"] absent digits
  have a: "enumToString tlsVersions 0x0304 = ''UNKNOWN[0x304]''" by simp
  from ex [of tlsCipherSuites "0x002f" "''TLS_RSA_WITH_AES_128_CBC_SHA''"] present
  have b: "enumToString tlsCipherSuites 0x002f = ''TLS_RSA_WITH_AES_128_CBC_SHA''" by simp
  from ex [of tlsVersions "0x0303" "''TLS 1.2''"] tls12
  have c: "enumToString tlsVersions 0x0303 = ''TLS 1.2''" by simp
  from ex [of tlsVersions "0x0303" "''TLS 1.2''"] b c
  have d: "Cipher (connReport example_env ''example.org'' 0 example_keys example_state) =
     \<lparr>Version = ''TLS 1.2'', CipherSuite = ''TLS_RSA_WITH_AES_128_CBC_SHA''\<rparr>"
    by (simp add: example_state_def)
  from absent a present b d show ?thesis by blast
qed

subsection \<open>Report\<close>

text \<open>
  Claim C1, as amended. When discovery succeeds, \<^verbatim>\<open>Report\<close> returns a report whose two
  maps have, between them, exactly the resolved addresses as keys: no address is in
  neither. When the resolved addresses are pairwise distinct, no address is in both, and
  the two maps hold as many keys as there are addresses.
\<close>

theorem Report_partitions_addresses:
  assumes lookup: "LookupServer env serverName w = (Inr dns, w1)"
  shows "\<exists>report w'. Report env serverName sni w = (Inr report, w') \<and>
     DNSResult report = dns \<and>
     map_keys (ConnectionReports report) \<union> map_keys (ConnectionErrors report) = set (Addrs dns) \<and>
     (distinct (Addrs dns) \<longrightarrow>
        map_keys (ConnectionReports report) \<inter> map_keys (ConnectionErrors report) = {} \<and>
        card (map_keys (ConnectionReports report)) + card (map_keys (ConnectionErrors report))
          = length (Addrs dns) \<and>
        card (map_keys (ConnectionReports report) \<union> map_keys (ConnectionErrors report))
          = length (Addrs dns))"
proof -
  obtain now w2 where clock: "time_Now env w1 = (now, w2)"
    by (cases "time_Now env w1")
  define ps where "ps = zip (Addrs dns) (probe_results env serverName sni (Addrs dns) w2)"
  define st where "st = record_results (connReport env serverName now) ps (Map.empty, Map.empty)"
  define report where
    "report = \<lparr>DNSResult = dns, ConnectionReports = MadeMap (fst st),
                ConnectionErrors = MadeMap (snd st)\<rparr>"
  have addrs: "map fst ps = Addrs dns"
    unfolding ps_def by (rule zip_probe_results_fst)
  then have len: "length ps = length (Addrs dns)"
    by (metis length_map)
  have run: "Report env serverName sni w =
      (Inr report, snd (probe_loop env serverName sni now (Addrs dns) (Map.empty, Map.empty) w2))"
    unfolding report_def st_def ps_def by (rule Report_success [OF lookup clock])
  have rk: "map_keys (ConnectionReports report) = set (map fst (filter (\<lambda>p. \<not> isl (snd p)) ps))"
    unfolding report_def st_def by (simp add: map_keys_MadeMap record_results_reports_dom)
  have ek: "map_keys (ConnectionErrors report) = set (map fst (filter (\<lambda>p. isl (snd p)) ps))"
    unfolding report_def st_def by (simp add: map_keys_MadeMap record_results_errors_dom)
  have union: "map_keys (ConnectionReports report) \<union> map_keys (ConnectionErrors report)
      = set (Addrs dns)"
  proof -
    have "set (map fst (filter (\<lambda>p. \<not> isl (snd p)) ps)) \<union> set (map fst (filter (\<lambda>p. isl (snd p)) ps))
        = set (map fst ps)"
      by auto
    then show ?thesis unfolding rk ek addrs .
  qed
  have part: "map_keys (ConnectionReports report) \<inter> map_keys (ConnectionErrors report) = {} \<and>
        card (map_keys (ConnectionReports report)) + card (map_keys (ConnectionErrors report))
          = length (Addrs dns) \<and>
        card (map_keys (ConnectionReports report) \<union> map_keys (ConnectionErrors report))
          = length (Addrs dns)" if d: "distinct (Addrs dns)"
  proof -
    from d addrs have dps: "distinct (map fst ps)" by simp
    show ?thesis
      unfolding union unfolding rk ek
      using split_addresses_disjoint [OF dps] split_addresses_card [OF dps] len distinct_card [OF d]
      by simp
  qed
  have "DNSResult report = dns" by (simp add: report_def)
  with run union part show ?thesis by blast
qed

theorem Report_partitions_addresses_witness:
  "LookupServer example_env ''example.org'' 0 = (Inr example_dns, Suc 0) \<and>
   distinct (Addrs example_dns) \<and>
   (\<exists>report w'. Report example_env ''example.org'' [] 0 = (Inr report, w') \<and>
      map_keys (ConnectionReports report) = {''192.0.2.1:8448''} \<and>
      map_keys (ConnectionErrors report) = {''192.0.2.2:8448''} \<and>
      map_keys (ConnectionReports report) \<inter> map_keys (ConnectionErrors report) = {} \<and>
      card (map_keys (ConnectionReports report)) + card (map_keys (ConnectionErrors report)) = 2)"
proof -
  have lookup: "LookupServer example_env ''example.org'' 0 = (Inr example_dns, Suc 0)"
    by (simp add: example_env_def)
  have d: "distinct (Addrs example_dns)"
    by (simp add: example_dns_def)
  from Report_partitions_addresses [OF lookup, of "[]"] d
  obtain report w' where run: "Report example_env ''example.org'' [] 0 = (Inr report, w')"
    and disj: "map_keys (ConnectionReports report) \<inter> map_keys (ConnectionErrors report) = {}"
    and count: "card (map_keys (ConnectionReports report))
                  + card (map_keys (ConnectionErrors report)) = length (Addrs example_dns)"
    by blast
  from run have "map_keys (ConnectionReports report) = {''192.0.2.1:8448''}"
    and "map_keys (ConnectionErrors report) = {''192.0.2.2:8448''}"
    unfolding example_run by (auto simp: map_keys_MadeMap)
  moreover have "length (Addrs example_dns) = 2"
    by (simp add: example_dns_def)
  ultimately show ?thesis using lookup d run disj count by auto
qed

text \<open>
  Claim C1 as it was stated fails when discovery returns one address twice. With both
  probes of it failing, the list has two addresses and the two maps hold one key; with
  the first probe failing and the second succeeding, the address is a key of both maps.
\<close>

theorem Report_repeated_address_counterexample:
  "card (map_keys (ConnectionReports (projr (fst (Report repeat_env ''example.org'' [] 0)))))
     + card (map_keys (ConnectionErrors (projr (fst (Report repeat_env ''example.org'' [] 0)))))
   \<noteq> length (Addrs (DNSResult (projr (fst (Report repeat_env ''example.org'' [] 0))))) \<and>
   ''192.0.2.2:8448''
     \<in> map_keys (ConnectionReports (projr (fst (Report flaky_env ''example.org'' [] 0))))
       \<inter> map_keys (ConnectionErrors (projr (fst (Report flaky_env ''example.org'' [] 0))))"
  unfolding repeat_run flaky_run by (simp add: map_keys_MadeMap)



text \<open>
  Claim C3. If \<^verbatim>\<open>LookupServer\<close> fails, \<^verbatim>\<open>Report\<close> returns that error and no report, in
  the world discovery left: the clock is not read and no address is probed, so the
  result is the same whatever \<^verbatim>\<open>FetchKeysDirect\<close> and the clock would have done.
\<close>

theorem Report_discovery_failure:
  assumes "LookupServer env serverName w = (Inl err, w1)"
  shows "Report env serverName sni w = (Inl err, w1) \<and>
     Report (env\<lparr>FetchKeysDirect := probe, time_Now := clock\<rparr>) serverName sni w = (Inl err, w1)"
  using assms by (simp add: Report_def)

theorem Report_discovery_failure_witness:
  "LookupServer example_env ''nowhere.invalid'' 0 = (Inl (ForeignError 0 ''no such host''), Suc 0) \<and>
   Report example_env ''nowhere.invalid'' [] 0 = (Inl (ForeignError 0 ''no such host''), Suc 0) \<and>
   Report (example_env\<lparr>FetchKeysDirect := FetchKeysDirect down_env, time_Now := time_Now later_env\<rparr>)
     ''nowhere.invalid'' [] 0 = (Inl (ForeignError 0 ''no such host''), Suc 0)"
proof -
  have lookup: "LookupServer example_env ''nowhere.invalid'' 0
      = (Inl (ForeignError 0 ''no such host''), Suc 0)"
    by (simp add: example_env_def)
  from Report_discovery_failure [OF lookup] lookup show ?thesis by blast
qed

text \<open>
  Claim C10. If discovery succeeds with an empty list of addresses, \<^verbatim>\<open>Report\<close> returns
  a report and no error; both maps of the report are made (not nil) and empty; the world
  is the one the single reading of the clock left, and the result does not depend on
  \<^verbatim>\<open>FetchKeysDirect\<close>: no probe is attempted.
\<close>

theorem Report_no_addresses:
  assumes "LookupServer env serverName w = (Inr dns, w1)" and "Addrs dns = []"
  shows "Report env serverName sni w =
       (Inr \<lparr>DNSResult = dns, ConnectionReports = MadeMap Map.empty,
             ConnectionErrors = MadeMap Map.empty\<rparr>, snd (time_Now env w1)) \<and>
     ConnectionReports (projr (fst (Report env serverName sni w))) \<noteq> NilMap \<and>
     ConnectionErrors (projr (fst (Report env serverName sni w))) \<noteq> NilMap \<and>
     Report (env\<lparr>FetchKeysDirect := probe\<rparr>) serverName sni w = Report env serverName sni w"
  using assms by (simp add: Report_def split: prod.splits)

theorem Report_no_addresses_witness:
  "LookupServer empty_env ''example.org'' 0 = (Inr (example_dns\<lparr>Addrs := []\<rparr>), Suc 0) \<and>
   Addrs (example_dns\<lparr>Addrs := []\<rparr>) = [] \<and>
   Report empty_env ''example.org'' [] 0 =
       (Inr \<lparr>DNSResult = example_dns\<lparr>Addrs := []\<rparr>, ConnectionReports = MadeMap Map.empty,
             ConnectionErrors = MadeMap Map.empty\<rparr>, 2)"
proof -
  have lookup: "LookupServer empty_env ''example.org'' 0 = (Inr (example_dns\<lparr>Addrs := []\<rparr>), Suc 0)"
    by (simp add: empty_env_def example_env_def)
  have none: "Addrs (example_dns\<lparr>Addrs := []\<rparr>) = []" by simp
  have "snd (time_Now empty_env (Suc 0)) = 2"
    by (simp add: empty_env_def example_env_def)
  with Report_no_addresses [OF lookup none, of "[]"] lookup none show ?thesis by simp
qed

text \<open>
  Claim C8. Take two runs of \<^verbatim>\<open>Report\<close> in which discovery returns the same result and
  the probes give the same answers. Both return a report, and the two reports are equal
  in everything that does not come from \<^verbatim>\<open>CheckKeys\<close>. Every connection report of a run
  was built from the keys and the session of one of its probes and from one and the same
  time, the one the clock showed right after discovery, however the world moved on during
  the probes; no other reading of the clock matters to the result. If \<^verbatim>\<open>CheckKeys\<close> agrees in the two runs at the times read, the reports are
  equal, and with the same serializer \<^verbatim>\<open>JSONReport\<close> returns the same bytes.
\<close>

theorem Report_deterministic_up_to_time:
  assumes lookup: "LookupServer env serverName w = (Inr dns, w1)"
    and lookup': "LookupServer env' serverName w' = (Inr dns, w1')"
    and probes: "probe_results env' serverName sni (Addrs dns) (snd (time_Now env' w1'))
                   = probe_results env serverName sni (Addrs dns) (snd (time_Now env w1))"
    and digest: "sha256_Sum256 env' = sha256_Sum256 env"
  shows "\<exists>report v report' v'.
     Report env serverName sni w = (Inr report, v) \<and>
     Report env' serverName sni w' = (Inr report', v') \<and>
     time_free report' = time_free report \<and>
     (\<forall>addr cr. entries (ConnectionReports report) addr = Some cr \<longrightarrow>
        (\<exists>keys connState.
           Inr (keys, connState)
             \<in> set (probe_results env serverName sni (Addrs dns) (snd (time_Now env w1))) \<and>
           cr = connReport env serverName (fst (time_Now env w1)) keys connState \<and>
           (Checks cr, Ed25519VerifyKeys cr, SHA256TLSFingerprints cr)
             = CheckKeys env serverName (fst (time_Now env w1)) keys connState)) \<and>
     (\<forall>clock. clock w1 = time_Now env w1 \<longrightarrow>
        Report (env\<lparr>time_Now := clock\<rparr>) serverName sni w = Report env serverName sni w) \<and>
     (CheckKeys env' serverName (fst (time_Now env' w1'))
        = CheckKeys env serverName (fst (time_Now env w1)) \<longrightarrow>
          report' = report \<and>
          (json_Marshal env' = json_Marshal env \<and> json_Indent env' = json_Indent env \<longrightarrow>
             fst (JSONReport env' serverName sni w') = fst (JSONReport env serverName sni w)))"
proof -
  obtain now w2 where clock: "time_Now env w1 = (now, w2)"
    by (cases "time_Now env w1")
  obtain now' w2' where clock': "time_Now env' w1' = (now', w2')"
    by (cases "time_Now env' w1'")
  define outs where "outs = probe_results env serverName sni (Addrs dns) w2"
  define ps where "ps = zip (Addrs dns) outs"
  define st where "st = record_results (connReport env serverName now) ps (Map.empty, Map.empty)"
  define st' where "st' = record_results (connReport env' serverName now') ps (Map.empty, Map.empty)"
  define report where
    "report = \<lparr>DNSResult = dns, ConnectionReports = MadeMap (fst st),
                ConnectionErrors = MadeMap (snd st)\<rparr>"
  define report' where
    "report' = \<lparr>DNSResult = dns, ConnectionReports = MadeMap (fst st'),
                 ConnectionErrors = MadeMap (snd st')\<rparr>"
  have outs': "probe_results env' serverName sni (Addrs dns) w2' = outs"
    using probes unfolding outs_def clock clock' by simp
  have run: "Report env serverName sni w =
      (Inr report, snd (probe_loop env serverName sni now (Addrs dns) (Map.empty, Map.empty) w2))"
    unfolding report_def st_def ps_def outs_def by (rule Report_success [OF lookup clock])
  have run': "Report env' serverName sni w' =
      (Inr report', snd (probe_loop env' serverName sni now' (Addrs dns) (Map.empty, Map.empty) w2'))"
    unfolding report'_def st'_def ps_def outs' [symmetric]
    by (rule Report_success [OF lookup' clock'])
  have view: "(\<forall>a. map_option time_free_conn (fst st' a) = map_option time_free_conn (fst st a))
      \<and> snd st' = snd st"
    unfolding st_def st'_def
    by (rule record_results_view) (simp_all add: time_free_conn_connReport [OF digest])
  then have free: "time_free report' = time_free report"
    by (simp add: time_free_def report_def report'_def)
  have origin: "\<exists>keys connState. Inr (keys, connState) \<in> set outs \<and>
           cr = connReport env serverName now keys connState \<and>
           (Checks cr, Ed25519VerifyKeys cr, SHA256TLSFingerprints cr)
             = CheckKeys env serverName now keys connState"
    if "entries (ConnectionReports report) addr = Some cr" for addr cr
  proof -
    from that have "fst (record_results (connReport env serverName now) ps (Map.empty, Map.empty)) addr
        = Some cr"
      by (simp add: report_def st_def)
    from record_results_report_origin [OF this]
    obtain k c where "(addr, Inr (k, c)) \<in> set ps" and cr: "cr = connReport env serverName now k c"
      by auto
    then have "Inr (k, c) \<in> set outs"
      unfolding ps_def by (auto dest: set_zip_rightD)
    with cr show ?thesis
      using connReport_checks [of env serverName now k c] by blast
  qed
  have same: "report' = report \<and>
          (json_Marshal env' = json_Marshal env \<and> json_Indent env' = json_Indent env \<longrightarrow>
             fst (JSONReport env' serverName sni w') = fst (JSONReport env serverName sni w))"
    if "CheckKeys env' serverName now' = CheckKeys env serverName now"
  proof -
    from connReport_cong [OF digest that] have "st' = st"
      by (simp add: st_def st'_def)
    then have eq: "report' = report"
      by (simp add: report_def report'_def)
    with run run' show ?thesis
      by (auto simp: JSONReport_def split: sum.splits)
  qed
  have once: "Report (env\<lparr>time_Now := c\<rparr>) serverName sni w = Report env serverName sni w"
    if "c w1 = time_Now env w1" for c
    using that lookup by (rule Report_other_clock)
  from run run' free origin once same show ?thesis
    unfolding outs_def clock clock' fst_conv snd_conv by blast
qed

theorem Report_deterministic_up_to_time_witness:
  "LookupServer up_env ''example.org'' 0 = (Inr example_dns, Suc 0) \<and>
   LookupServer later_env ''example.org'' 0 = (Inr example_dns, Suc 0) \<and>
   LookupServer stopped_env ''example.org'' 0 = (Inr example_dns, Suc 0) \<and>
   probe_results later_env ''example.org'' [] (Addrs example_dns) (snd (time_Now later_env (Suc 0)))
     = probe_results up_env ''example.org'' [] (Addrs example_dns)
         (snd (time_Now up_env (Suc 0))) \<and>
   probe_results stopped_env ''example.org'' [] (Addrs example_dns)
       (snd (time_Now stopped_env (Suc 0)))
     = probe_results up_env ''example.org'' [] (Addrs example_dns)
         (snd (time_Now up_env (Suc 0))) \<and>
   sha256_Sum256 later_env = sha256_Sum256 up_env \<and>
   sha256_Sum256 stopped_env = sha256_Sum256 up_env \<and>
   fst (time_Now up_env (Suc 0)) = 1 \<and>
   fst (time_Now up_env 3) = 3 \<and>
   fst (time_Now later_env (Suc 0)) = 86401 \<and>
   time_free (projr (fst (Report later_env ''example.org'' [] 0)))
     = time_free (projr (fst (Report up_env ''example.org'' [] 0))) \<and>
   (\<exists>cr. entries (ConnectionReports (projr (fst (Report up_env ''example.org'' [] 0))))
            ''192.0.2.1:8448'' = Some cr \<and> Checks cr = 1) \<and>
   (\<exists>cr. entries (ConnectionReports (projr (fst (Report up_env ''example.org'' [] 0))))
            ''192.0.2.2:8448'' = Some cr \<and> Checks cr = 1) \<and>
   CheckKeys stopped_env ''example.org'' (fst (time_Now stopped_env (Suc 0)))
     = CheckKeys up_env ''example.org'' (fst (time_Now up_env (Suc 0))) \<and>
   json_Marshal stopped_env = json_Marshal up_env \<and>
   json_Indent stopped_env = json_Indent up_env \<and>
   projr (fst (Report stopped_env ''example.org'' [] 0))
     = projr (fst (Report up_env ''example.org'' [] 0)) \<and>
   fst (JSONReport stopped_env ''example.org'' [] 0)
     = fst (JSONReport up_env ''example.org'' [] 0) \<and>
   time_Now stopped_env (Suc 0) = time_Now up_env (Suc 0) \<and>
   Report (up_env\<lparr>time_Now := time_Now stopped_env\<rparr>) ''example.org'' [] 0
     = Report up_env ''example.org'' [] 0"
proof -
  have lookup: "LookupServer up_env ''example.org'' 0 = (Inr example_dns, Suc 0)"
    and lookup_later: "LookupServer later_env ''example.org'' 0 = (Inr example_dns, Suc 0)"
    and lookup_stopped: "LookupServer stopped_env ''example.org'' 0 = (Inr example_dns, Suc 0)"
    by (simp_all add: up_env_def example_env_def later_env_def stopped_env_def)
  have probes_later:
    "probe_results later_env ''example.org'' [] (Addrs example_dns) (snd (time_Now later_env (Suc 0)))
     = probe_results up_env ''example.org'' [] (Addrs example_dns)
         (snd (time_Now up_env (Suc 0)))"
    by (simp add: up_env_def example_env_def later_env_def example_dns_def)
  have probes_stopped:
    "probe_results stopped_env ''example.org'' [] (Addrs example_dns)
       (snd (time_Now stopped_env (Suc 0)))
     = probe_results up_env ''example.org'' [] (Addrs example_dns)
         (snd (time_Now up_env (Suc 0)))"
    by (simp add: up_env_def example_env_def stopped_env_def example_dns_def)
  have digest_later: "sha256_Sum256 later_env = sha256_Sum256 up_env"
    and digest_stopped: "sha256_Sum256 stopped_env = sha256_Sum256 up_env"
    by (simp_all add: up_env_def example_env_def later_env_def stopped_env_def)
  have now: "fst (time_Now up_env (Suc 0)) = 1"
    and now3: "fst (time_Now up_env 3) = 3"
    and now_later: "fst (time_Now later_env (Suc 0)) = 86401"
    by (simp_all add: up_env_def example_env_def later_env_def)
  have checks: "CheckKeys stopped_env ''example.org'' (fst (time_Now stopped_env (Suc 0)))
     = CheckKeys up_env ''example.org'' (fst (time_Now up_env (Suc 0)))"
    and json: "json_Marshal stopped_env = json_Marshal up_env"
      "json_Indent stopped_env = json_Indent up_env"
    by (simp_all add: up_env_def example_env_def stopped_env_def)
  have verdict: "CheckKeys up_env ''example.org'' (fst (time_Now up_env (Suc 0))) keys connState
      = (1, NilMap, [])" for keys connState
    by (simp add: up_env_def example_env_def)
  from Report_deterministic_up_to_time [OF lookup lookup_later probes_later digest_later]
  obtain report v report' v'
    where run: "Report up_env ''example.org'' [] 0 = (Inr report, v)"
      and run': "Report later_env ''example.org'' [] 0 = (Inr report', v')"
      and free: "time_free report' = time_free report"
      and origin: "\<forall>addr cr. entries (ConnectionReports report) addr = Some cr \<longrightarrow>
        (\<exists>keys connState.
           Inr (keys, connState)
             \<in> set (probe_results up_env ''example.org'' [] (Addrs example_dns)
                      (snd (time_Now up_env (Suc 0)))) \<and>
           cr = connReport up_env ''example.org'' (fst (time_Now up_env (Suc 0)))
                  keys connState \<and>
           (Checks cr, Ed25519VerifyKeys cr, SHA256TLSFingerprints cr)
             = CheckKeys up_env ''example.org'' (fst (time_Now up_env (Suc 0)))
                 keys connState)"
      and once: "\<forall>clock. clock (Suc 0) = time_Now up_env (Suc 0) \<longrightarrow>
        Report (up_env\<lparr>time_Now := clock\<rparr>) ''example.org'' [] 0
          = Report up_env ''example.org'' [] 0"
    by blast
  have same_reading: "time_Now stopped_env (Suc 0) = time_Now up_env (Suc 0)"
    by (simp add: stopped_env_def up_env_def example_env_def)
  with once have e: "Report (up_env\<lparr>time_Now := time_Now stopped_env\<rparr>) ''example.org'' [] 0
      = Report up_env ''example.org'' [] 0"
    by blast
  have a: "time_free (projr (fst (Report later_env ''example.org'' [] 0)))
     = time_free (projr (fst (Report up_env ''example.org'' [] 0)))"
    using free unfolding run run' by simp
  have rep: "projr (fst (Report up_env ''example.org'' [] 0)) = report"
    unfolding run by simp
  have stamped: "Checks cr = 1" if "entries (ConnectionReports report) addr = Some cr" for addr cr
  proof -
    from origin that obtain keys connState
      where "(Checks cr, Ed25519VerifyKeys cr, SHA256TLSFingerprints cr)
        = CheckKeys up_env ''example.org'' (fst (time_Now up_env (Suc 0))) keys connState"
      by blast
    then show ?thesis unfolding verdict by simp
  qed
  from run have "\<exists>cr. entries (ConnectionReports report) ''192.0.2.1:8448'' = Some cr"
    and "\<exists>cr. entries (ConnectionReports report) ''192.0.2.2:8448'' = Some cr"
    unfolding up_run by auto
  with stamped have b: "\<exists>cr. entries (ConnectionReports report) ''192.0.2.1:8448'' = Some cr
        \<and> Checks cr = 1"
    and b': "\<exists>cr. entries (ConnectionReports report) ''192.0.2.2:8448'' = Some cr
        \<and> Checks cr = 1"
    by blast+
  from Report_deterministic_up_to_time [OF lookup lookup_stopped probes_stopped digest_stopped]
    checks json
  obtain report0 v0 report1 v1
    where "Report up_env ''example.org'' [] 0 = (Inr report0, v0)"
      and "Report stopped_env ''example.org'' [] 0 = (Inr report1, v1)"
      and "report1 = report0"
      and c: "fst (JSONReport stopped_env ''example.org'' [] 0)
                = fst (JSONReport up_env ''example.org'' [] 0)"
    by blast
  then have d: "projr (fst (Report stopped_env ''example.org'' [] 0))
     = projr (fst (Report up_env ''example.org'' [] 0))"
    by simp
  from lookup lookup_later lookup_stopped probes_later probes_stopped digest_later digest_stopped
    now now3 now_later a b b' checks json c d same_reading e
  show ?thesis unfolding rep by blast
qed

subsection \<open>touchUpReport\<close>

text \<open>
  Claim C4. \<^verbatim>\<open>touchUpReport\<close> applied twice gives the same report as applied once. A
  failure that is already a \<^verbatim>\<open>ReportError\<close> is kept as it is, with its message,
  wherever the report holds it (\<^verbatim>\<open>SRVError\<close>, the \<^verbatim>\<open>Error\<close> of a host entry, a value
  of \<^verbatim>\<open>ConnectionErrors\<close>), and an absent failure
  stays absent: a nil \<^verbatim>\<open>SRVError\<close>, a host entry whose \<^verbatim>\<open>Error\<close> is nil (the entry is
  unchanged), a nil value in \<^verbatim>\<open>ConnectionErrors\<close>; and no entry appears at a key where
  there was none.
\<close>

theorem touchUpReport_idempotent:
  "touchUpReport (touchUpReport report) = touchUpReport report \<and>
   asReportError (Some (IsReportError e)) = Some (IsReportError e) \<and>
   asReportError None = None \<and>
   (SRVError (DNSResult report) = None \<longrightarrow> SRVError (DNSResult (touchUpReport report)) = None) \<and>
   (\<forall>host.
      (entries (Hosts (DNSResult report)) host = None
         \<longrightarrow> entries (Hosts (DNSResult (touchUpReport report))) host = None) \<and>
      (\<forall>hostReport.
         entries (Hosts (DNSResult report)) host = Some hostReport \<and> Error hostReport = None
           \<longrightarrow> entries (Hosts (DNSResult (touchUpReport report))) host = Some hostReport)) \<and>
   (\<forall>addr.
      (entries (ConnectionErrors report) addr = None
         \<longrightarrow> entries (ConnectionErrors (touchUpReport report)) addr = None) \<and>
      (entries (ConnectionErrors report) addr = Some None
         \<longrightarrow> entries (ConnectionErrors (touchUpReport report)) addr = Some None)) \<and>
   (SRVError (DNSResult report) = Some (IsReportError e)
      \<longrightarrow> SRVError (DNSResult (touchUpReport report)) = Some (IsReportError e)) \<and>
   (\<forall>host hostReport.
      entries (Hosts (DNSResult report)) host = Some hostReport \<and>
      Error hostReport = Some (IsReportError e)
        \<longrightarrow> entries (Hosts (DNSResult (touchUpReport report))) host = Some hostReport) \<and>
   (\<forall>addr.
      entries (ConnectionErrors report) addr = Some (Some (IsReportError e))
        \<longrightarrow> entries (ConnectionErrors (touchUpReport report)) addr
              = Some (Some (IsReportError e)))"
proof -
  have keep: "asReportError (Some (IsReportError e)) = Some (IsReportError e)"
    by (simp add: asReportError_def ReportError_Error_def)
  have absent: "asReportError None = None"
    by (simp add: asReportError_def)
  have host: "entries (Hosts (DNSResult (touchUpReport report))) host = Some hostReport"
    if "entries (Hosts (DNSResult report)) host = Some hostReport" and "Error hostReport = None"
    for host hostReport
  proof -
    from that(2) have "hostReport\<lparr>Error := asReportError (Error hostReport)\<rparr> = hostReport"
      by (cases hostReport) (simp add: absent)
    with that(1) show ?thesis
      by (simp add: touchUpReport_fields entries_range_assign)
  qed
  have srv: "SRVError (DNSResult report) = None
      \<longrightarrow> SRVError (DNSResult (touchUpReport report)) = None"
    by (simp add: touchUpReport_fields absent)
  have nohost: "entries (Hosts (DNSResult report)) host = None
         \<longrightarrow> entries (Hosts (DNSResult (touchUpReport report))) host = None" for host
    by (simp add: touchUpReport_fields entries_range_assign)
  have errs: "(entries (ConnectionErrors report) addr = None
         \<longrightarrow> entries (ConnectionErrors (touchUpReport report)) addr = None) \<and>
      (entries (ConnectionErrors report) addr = Some None
         \<longrightarrow> entries (ConnectionErrors (touchUpReport report)) addr = Some None)" for addr
    by (simp add: touchUpReport_fields entries_range_assign absent)
  have srv_kept: "SRVError (DNSResult report) = Some (IsReportError e)
      \<longrightarrow> SRVError (DNSResult (touchUpReport report)) = Some (IsReportError e)"
    by (simp add: touchUpReport_fields keep)
  have host_kept: "entries (Hosts (DNSResult (touchUpReport report))) host = Some hostReport"
    if "entries (Hosts (DNSResult report)) host = Some hostReport"
      and "Error hostReport = Some (IsReportError e)"
    for host hostReport
  proof -
    from that(2) have "hostReport\<lparr>Error := asReportError (Error hostReport)\<rparr> = hostReport"
      by (cases hostReport) (simp add: keep)
    with that(1) show ?thesis
      by (simp add: touchUpReport_fields entries_range_assign)
  qed
  have err_kept: "entries (ConnectionErrors report) addr = Some (Some (IsReportError e))
        \<longrightarrow> entries (ConnectionErrors (touchUpReport report)) addr
              = Some (Some (IsReportError e))" for addr
    by (simp add: touchUpReport_fields entries_range_assign keep)
  from touchUpReport_twice [of report] keep absent srv nohost host errs
  have first: "touchUpReport (touchUpReport report) = touchUpReport report \<and>
   asReportError (Some (IsReportError e)) = Some (IsReportError e) \<and>
   asReportError None = None \<and>
   (SRVError (DNSResult report) = None \<longrightarrow> SRVError (DNSResult (touchUpReport report)) = None) \<and>
   (\<forall>host.
      (entries (Hosts (DNSResult report)) host = None
         \<longrightarrow> entries (Hosts (DNSResult (touchUpReport report))) host = None) \<and>
      (\<forall>hostReport.
         entries (Hosts (DNSResult report)) host = Some hostReport \<and> Error hostReport = None
           \<longrightarrow> entries (Hosts (DNSResult (touchUpReport report))) host = Some hostReport)) \<and>
   (\<forall>addr.
      (entries (ConnectionErrors report) addr = None
         \<longrightarrow> entries (ConnectionErrors (touchUpReport report)) addr = None) \<and>
      (entries (ConnectionErrors report) addr = Some None
         \<longrightarrow> entries (ConnectionErrors (touchUpReport report)) addr = Some None))"
    by blast
  from srv_kept host_kept err_kept
  have second: "(SRVError (DNSResult report) = Some (IsReportError e)
      \<longrightarrow> SRVError (DNSResult (touchUpReport report)) = Some (IsReportError e)) \<and>
   (\<forall>host hostReport.
      entries (Hosts (DNSResult report)) host = Some hostReport \<and>
      Error hostReport = Some (IsReportError e)
        \<longrightarrow> entries (Hosts (DNSResult (touchUpReport report))) host = Some hostReport) \<and>
   (\<forall>addr.
      entries (ConnectionErrors report) addr = Some (Some (IsReportError e))
        \<longrightarrow> entries (ConnectionErrors (touchUpReport report)) addr
              = Some (Some (IsReportError e)))"
    by blast
  from first second show ?thesis by simp
qed

theorem touchUpReport_idempotent_witness:
  "touchUpReport (touchUpReport example_report) = touchUpReport example_report \<and>
   SRVError (DNSResult (example_report\<lparr>DNSResult := (DNSResult example_report)\<lparr>SRVError := None\<rparr>\<rparr>))
     = None \<and>
   SRVError (DNSResult (touchUpReport
       (example_report\<lparr>DNSResult := (DNSResult example_report)\<lparr>SRVError := None\<rparr>\<rparr>))) = None \<and>
   entries (Hosts (DNSResult example_report)) ''c.example.org'' = None \<and>
   entries (Hosts (DNSResult (touchUpReport example_report))) ''c.example.org'' = None \<and>
   entries (Hosts (DNSResult example_report)) ''b.example.org''
     = Some \<lparr>Error = None, HostRest = 2\<rparr> \<and>
   entries (Hosts (DNSResult (touchUpReport example_report))) ''b.example.org''
     = Some \<lparr>Error = None, HostRest = 2\<rparr> \<and>
   entries (ConnectionErrors example_report) ''192.0.2.9:8448'' = None \<and>
   entries (ConnectionErrors (touchUpReport example_report)) ''192.0.2.9:8448'' = None \<and>
   entries (ConnectionErrors example_report) ''192.0.2.4:8448'' = Some None \<and>
   entries (ConnectionErrors (touchUpReport example_report)) ''192.0.2.4:8448'' = Some None \<and>
   entries (ConnectionErrors example_report) ''192.0.2.3:8448''
     = Some (Some (IsReportError \<lparr>Message = ''refused''\<rparr>)) \<and>
   entries (ConnectionErrors (touchUpReport example_report)) ''192.0.2.3:8448''
     = Some (Some (IsReportError \<lparr>Message = ''refused''\<rparr>)) \<and>
   SRVError (DNSResult message_report) = Some (IsReportError \<lparr>Message = ''no SRV record''\<rparr>) \<and>
   SRVError (DNSResult (touchUpReport message_report))
     = Some (IsReportError \<lparr>Message = ''no SRV record''\<rparr>) \<and>
   entries (Hosts (DNSResult message_report)) ''a.example.org''
     = Some \<lparr>Error = Some (IsReportError \<lparr>Message = ''no such host''\<rparr>), HostRest = 1\<rparr> \<and>
   entries (Hosts (DNSResult (touchUpReport message_report))) ''a.example.org''
     = Some \<lparr>Error = Some (IsReportError \<lparr>Message = ''no such host''\<rparr>), HostRest = 1\<rparr>"
proof -
  note ex = touchUpReport_idempotent [of example_report "\<lparr>Message = ''refused''\<rparr>"]
  note ex' = touchUpReport_idempotent
    [of "example_report\<lparr>DNSResult := (DNSResult example_report)\<lparr>SRVError := None\<rparr>\<rparr>"
        "\<lparr>Message = ''refused''\<rparr>"]
  have twice: "touchUpReport (touchUpReport example_report) = touchUpReport example_report"
    using ex by blast
  have srv: "SRVError (DNSResult (touchUpReport
       (example_report\<lparr>DNSResult := (DNSResult example_report)\<lparr>SRVError := None\<rparr>\<rparr>))) = None"
  proof -
    have "SRVError (DNSResult
        (example_report\<lparr>DNSResult := (DNSResult example_report)\<lparr>SRVError := None\<rparr>\<rparr>)) = None"
      by simp
    with ex' show ?thesis by blast
  qed
  have c: "entries (Hosts (DNSResult (touchUpReport example_report))) ''c.example.org'' = None"
    using ex example_report_entries(3) by blast
  have b: "entries (Hosts (DNSResult (touchUpReport example_report))) ''b.example.org''
     = Some \<lparr>Error = None, HostRest = 2\<rparr>"
  proof -
    have "Error \<lparr>Error = None, HostRest = 2::nat\<rparr> = (None :: nat error)" by simp
    with ex example_report_entries(1) show ?thesis by blast
  qed
  have e9: "entries (ConnectionErrors (touchUpReport example_report)) ''192.0.2.9:8448'' = None"
    using ex example_report_entries(5) by blast
  have e4: "entries (ConnectionErrors (touchUpReport example_report)) ''192.0.2.4:8448'' = Some None"
    using ex example_report_entries(4) by blast
  have e3_before: "entries (ConnectionErrors example_report) ''192.0.2.3:8448''
     = Some (Some (IsReportError \<lparr>Message = ''refused''\<rparr>))"
    by (simp add: example_report_def)
  with ex have e3: "entries (ConnectionErrors (touchUpReport example_report)) ''192.0.2.3:8448''
     = Some (Some (IsReportError \<lparr>Message = ''refused''\<rparr>))"
    by blast
  have m_srv_before: "SRVError (DNSResult message_report)
      = Some (IsReportError \<lparr>Message = ''no SRV record''\<rparr>)"
    by (simp add: message_report_def)
  with touchUpReport_idempotent [of message_report "\<lparr>Message = ''no SRV record''\<rparr>"]
  have m_srv: "SRVError (DNSResult (touchUpReport message_report))
      = Some (IsReportError \<lparr>Message = ''no SRV record''\<rparr>)"
    by blast
  have m_host_before: "entries (Hosts (DNSResult message_report)) ''a.example.org''
     = Some \<lparr>Error = Some (IsReportError \<lparr>Message = ''no such host''\<rparr>), HostRest = 1\<rparr>"
    by (simp add: message_report_def)
  have "Error \<lparr>Error = Some (IsReportError \<lparr>Message = ''no such host''\<rparr>), HostRest = 1::nat\<rparr>
      = (Some (IsReportError \<lparr>Message = ''no such host''\<rparr>) :: nat error)"
    by simp
  with touchUpReport_idempotent [of message_report "\<lparr>Message = ''no such host''\<rparr>"]
    m_host_before
  have m_host: "entries (Hosts (DNSResult (touchUpReport message_report))) ''a.example.org''
     = Some \<lparr>Error = Some (IsReportError \<lparr>Message = ''no such host''\<rparr>), HostRest = 1\<rparr>"
    by blast
  from twice srv c b e9 e4 e3_before e3 m_srv_before m_srv m_host_before m_host
    example_report_entries
  show ?thesis by simp
qed

text \<open>
  Claim C9. \<^verbatim>\<open>touchUpReport\<close> leaves \<^verbatim>\<open>ConnectionReports\<close> and the fields of
  \<^verbatim>\<open>DNSResult\<close> other than \<^verbatim>\<open>SRVError\<close> and \<^verbatim>\<open>Hosts\<close> as they were. It changes
  \<^verbatim>\<open>SRVError\<close>, the \<^verbatim>\<open>Error\<close> field of each entry of \<^verbatim>\<open>Hosts\<close> and the values of
  \<^verbatim>\<open>ConnectionErrors\<close> by \<^verbatim>\<open>asReportError\<close>, keeping the keys of both maps, whether
  each map is nil, and the other fields of each host entry.
\<close>

theorem touchUpReport_frame:
  "ConnectionReports (touchUpReport report) = ConnectionReports report \<and>
   Addrs (DNSResult (touchUpReport report)) = Addrs (DNSResult report) \<and>
   DNSRest (DNSResult (touchUpReport report)) = DNSRest (DNSResult report) \<and>
   SRVError (DNSResult (touchUpReport report)) = asReportError (SRVError (DNSResult report)) \<and>
   (Hosts (DNSResult (touchUpReport report)) = NilMap \<longleftrightarrow> Hosts (DNSResult report) = NilMap) \<and>
   map_keys (Hosts (DNSResult (touchUpReport report))) = map_keys (Hosts (DNSResult report)) \<and>
   (\<forall>host hostReport. entries (Hosts (DNSResult report)) host = Some hostReport \<longrightarrow>
      entries (Hosts (DNSResult (touchUpReport report))) host
        = Some \<lparr>Error = asReportError (Error hostReport), HostRest = HostRest hostReport\<rparr>) \<and>
   (ConnectionErrors (touchUpReport report) = NilMap \<longleftrightarrow> ConnectionErrors report = NilMap) \<and>
   map_keys (ConnectionErrors (touchUpReport report)) = map_keys (ConnectionErrors report) \<and>
   (\<forall>addr err. entries (ConnectionErrors report) addr = Some err \<longrightarrow>
      entries (ConnectionErrors (touchUpReport report)) addr = Some (asReportError err))"
proof -
  have host: "entries (Hosts (DNSResult (touchUpReport report))) host
        = Some \<lparr>Error = asReportError (Error hostReport), HostRest = HostRest hostReport\<rparr>"
    if "entries (Hosts (DNSResult report)) host = Some hostReport" for host hostReport
  proof -
    have "hostReport\<lparr>Error := asReportError (Error hostReport)\<rparr>
        = \<lparr>Error = asReportError (Error hostReport), HostRest = HostRest hostReport\<rparr>"
      by (cases hostReport) simp
    with that show ?thesis
      by (simp add: touchUpReport_fields entries_range_assign)
  qed
  have err: "entries (ConnectionErrors (touchUpReport report)) addr = Some (asReportError err)"
    if "entries (ConnectionErrors report) addr = Some err" for addr err
    using that by (simp add: touchUpReport_fields entries_range_assign)
  from host err show ?thesis
    by (simp add: touchUpReport_fields range_assign_NilMap map_keys_range_assign)
qed

theorem touchUpReport_frame_witness:
  "ConnectionReports (touchUpReport example_report)
     = MadeMap [''192.0.2.1:8448'' \<mapsto> connReport example_env ''example.org'' 5
                                          example_keys example_state] \<and>
   Addrs (DNSResult (touchUpReport example_report)) = [''192.0.2.1:8448'', ''192.0.2.2:8448''] \<and>
   DNSRest (DNSResult (touchUpReport example_report)) = 3 \<and>
   entries (Hosts (DNSResult example_report)) ''a.example.org''
     = Some \<lparr>Error = Some (ForeignError 8 ''no such host''), HostRest = 1\<rparr> \<and>
   entries (Hosts (DNSResult (touchUpReport example_report))) ''a.example.org''
     = Some \<lparr>Error = Some (IsReportError \<lparr>Message = ''no such host''\<rparr>), HostRest = 1\<rparr> \<and>
   entries (ConnectionErrors example_report) ''192.0.2.4:8448'' = Some None \<and>
   entries (ConnectionErrors (touchUpReport example_report)) ''192.0.2.4:8448'' = Some None \<and>
   map_keys (ConnectionErrors (touchUpReport example_report))
     = {''192.0.2.2:8448'', ''192.0.2.3:8448'', ''192.0.2.4:8448''}"
proof -
  note ex = touchUpReport_frame [of example_report]
  have reports: "ConnectionReports (touchUpReport example_report)
     = MadeMap [''192.0.2.1:8448'' \<mapsto> connReport example_env ''example.org'' 5
                                          example_keys example_state]"
    using ex by (simp add: example_report_def)
  have addrs: "Addrs (DNSResult (touchUpReport example_report))
     = [''192.0.2.1:8448'', ''192.0.2.2:8448'']"
    and rest: "DNSRest (DNSResult (touchUpReport example_report)) = 3"
    using ex by (simp_all add: example_report_def)
  have a: "entries (Hosts (DNSResult (touchUpReport example_report))) ''a.example.org''
     = Some \<lparr>Error = Some (IsReportError \<lparr>Message = ''no such host''\<rparr>), HostRest = 1\<rparr>"
  proof -
    from ex example_report_entries(2)
    have "entries (Hosts (DNSResult (touchUpReport example_report))) ''a.example.org''
      = Some \<lparr>Error = asReportError (Error \<lparr>Error = Some (ForeignError 8 ''no such host''),
                                              HostRest = 1::nat\<rparr>),
              HostRest = HostRest \<lparr>Error = Some (ForeignError 8 ''no such host''),
                                   HostRest = 1::nat\<rparr>\<rparr>"
      by blast
    then show ?thesis by (simp add: asReportError_def)
  qed
  have e4: "entries (ConnectionErrors (touchUpReport example_report)) ''192.0.2.4:8448'' = Some None"
  proof -
    from ex example_report_entries(4)
    have "entries (ConnectionErrors (touchUpReport example_report)) ''192.0.2.4:8448''
      = Some (asReportError None)"
      by blast
    then show ?thesis by (simp add: asReportError_def)
  qed
  have keys: "map_keys (ConnectionErrors (touchUpReport example_report))
     = {''192.0.2.2:8448'', ''192.0.2.3:8448'', ''192.0.2.4:8448''}"
  proof -
    from ex have "map_keys (ConnectionErrors (touchUpReport example_report))
      = map_keys (ConnectionErrors example_report)"
      by blast
    then show ?thesis by (auto simp: example_report_def map_keys_def)
  qed
  from reports addrs rest a e4 keys example_report_entries show ?thesis by simp
qed

subsection \<open>HandleReport\<close>

text \<open>
  Claim C7, at a request for a name that discovery does not know. \<^verbatim>\<open>JSONReport\<close>
  returns the error; the handler writes status 500 and nothing to the body of the
  response: the text \<^verbatim>\<open>Error Generating Report: "no such host"\<close> goes to the standard
  output of the process, where \<^verbatim>\<open>fmt.Printf\<close> writes.
\<close>

theorem HandleReport_discovery_failure_response:
  "JSONReport example_env ''nowhere.invalid'' [] 0 = (Inl (ForeignError 0 ''no such host''), Suc 0) \<and>
   StatusCode (fst (HandleReport example_env fresh_response unknown_request [] 0)) = Some 500 \<and>
   Body (fst (HandleReport example_env fresh_response unknown_request [] 0)) = [] \<and>
   fst (snd (HandleReport example_env fresh_response unknown_request [] 0))
     = ''Error Generating Report: '' @ [CHR 0x22] @ ''no such host'' @ [CHR 0x22]"
proof -
  have lookup: "LookupServer example_env ''nowhere.invalid'' 0
      = (Inl (ForeignError 0 ''no such host''), Suc 0)"
    by (simp add: example_env_def)
  then have json: "JSONReport example_env ''nowhere.invalid'' [] 0
      = (Inl (ForeignError 0 ''no such host''), Suc 0)"
    by (simp add: JSONReport_def Report_def)
  have get: "Method unknown_request = ''GET''"
    and name: "Values_Get (Query unknown_request) ''server_name'' = ''nowhere.invalid''"
    and sni: "Values_Get (Query unknown_request) ''tls_sni'' = []"
    by (simp_all add: unknown_request_def Values_Get_def)
  have q: "fmt_q example_env ''no such host'' = [CHR 0x22] @ ''no such host'' @ [CHR 0x22]"
    by (simp add: example_env_def)
  from json have "JSONReport example_env (Values_Get (Query unknown_request) ''server_name'')
           (Values_Get (Query unknown_request) ''tls_sni'') 0
      = (Inl (ForeignError 0 ''no such host''), Suc 0)"
    unfolding name sni .
  from HandleReport_error_leaves_body [OF get this, of fresh_response "[]"] json q
  show ?thesis by (simp add: fresh_response_def)
qed

end
